theory Spec2Isabelle
  imports Main "HOL-Library.Word" "HOL-Library.Sublist"
begin

section \<open>Constants and addresses\<close>

text \<open>
  The Go package \<^verbatim>\<open>vsock\<close>: its constants, the address type \<^verbatim>\<open>Addr\<close> and its
  renderings. Context IDs and ports are \<^verbatim>\<open>uint32\<close>.
\<close>

type_synonym u32 = "32 word"

definition Hypervisor :: u32 where "Hypervisor = 0x0"
definition Host :: u32 where "Host = 0x2"
definition cidReserved :: u32 where "cidReserved = 0x1"

definition shutRd :: int where "shutRd = 0"
definition shutWr :: int where "shutWr = 1"

definition ebadf :: nat where "ebadf = 9"
definition enotconn :: nat where "enotconn = 107"

definition devVsock :: string where "devVsock = ''/dev/vsock''"
definition network :: string where "network = ''vsock''"

record Addr =
  ContextID :: u32
  Port :: u32

text \<open>\<^verbatim>\<open>%d\<close> of an unsigned number: its decimal digits, most significant first.\<close>

fun itoa :: "nat \<Rightarrow> string" where
  "itoa n = (if n < 10 then [''0123456789'' ! n]
             else itoa (n div 10) @ [''0123456789'' ! (n mod 10)])"

declare itoa.simps [simp del]

definition Addr_Network :: "Addr \<Rightarrow> string" where
  "Addr_Network self = network"

definition Addr_String :: "Addr \<Rightarrow> string" where
  "Addr_String self =
     (let host =
        (if ContextID self = Hypervisor then
           ''hypervisor('' @ itoa (unat (ContextID self)) @ '')''
         else if ContextID self = cidReserved then
           ''reserved('' @ itoa (unat (ContextID self)) @ '')''
         else if ContextID self = Host then
           ''host('' @ itoa (unat (ContextID self)) @ '')''
         else ''vm('' @ itoa (unat (ContextID self)) @ '')'')
      in host @ '':'' @ itoa (unat (Port self)))"

definition fileName :: "Addr \<Rightarrow> string" where
  "fileName self = Addr_Network self @ '':'' @ Addr_String self"

section \<open>Errors\<close>

text \<open>
  Go's \<^verbatim>\<open>error\<close> values that reach this package, as one datatype: the sentinels
  \<^verbatim>\<open>io.EOF\<close>, \<^verbatim>\<open>os.ErrClosed\<close> and \<^verbatim>\<open>os.ErrInvalid\<close> (compared by identity in
  the source, so each is a constructor of its own), a \<^verbatim>\<open>syscall.Errno\<close>, a
  \<^verbatim>\<open>*os.PathError{Op, Path, Err}\<close>, an error known only by its text
  (\<^verbatim>\<open>errors.New\<close>, \<^verbatim>\<open>fmt.Errorf\<close>, the poller's internal errors such as
  \<^verbatim>\<open>use of closed file\<close> and \<^verbatim>\<open>i/o timeout\<close>), and the envelope
  \<^verbatim>\<open>*net.OpError{Op, Net, Source, Addr, Err}\<close>. A nil error is \<open>None\<close>.
\<close>

datatype err =
    EOF
  | ErrClosed
  | ErrInvalid
  | Errno nat
  | PathError string string err
  | ErrorString string
  | OpError string string "Addr option" "Addr option" err

text \<open>The error numbers the source and its callers name (Linux values).\<close>

definition EBADF :: nat where "EBADF = 9"
definition EAGAIN :: nat where "EAGAIN = 11"
definition EINVAL :: nat where "EINVAL = 22"
definition EMFILE :: nat where "EMFILE = 24"
definition EADDRINUSE :: nat where "EADDRINUSE = 98"
definition ECONNABORTED :: nat where "ECONNABORTED = 103"
definition ENOTCONN :: nat where "ENOTCONN = 107"

text \<open>
  \<^verbatim>\<open>syscall.Errno.Error()\<close>: the platform's message for the number, and
  \<^verbatim>\<open>errno N\<close> for a number without one. The table is an excerpt (the numbers
  above); no message of the platform's table contains the words \<^verbatim>\<open>use of closed\<close>,
  which is all that the classifier reads of a message.
\<close>

definition Errno_Error :: "nat \<Rightarrow> string" where
  "Errno_Error e =
     (if e = EBADF then ''bad file descriptor''
      else if e = EAGAIN then ''resource temporarily unavailable''
      else if e = EINVAL then ''invalid argument''
      else if e = EMFILE then ''too many open files''
      else if e = EADDRINUSE then ''address already in use''
      else if e = ECONNABORTED then ''software caused connection abort''
      else if e = ENOTCONN then ''transport endpoint is not connected''
      else ''errno '' @ itoa e)"

fun Error :: "err \<Rightarrow> string" where
  "Error EOF = ''EOF''"
| "Error ErrClosed = ''file already closed''"
| "Error ErrInvalid = ''invalid argument''"
| "Error (Errno e) = Errno_Error e"
| "Error (PathError op path e) = op @ '' '' @ path @ '': '' @ Error e"
| "Error (ErrorString s) = s"
| "Error (OpError op net source addr e) =
     op
     @ (if net \<noteq> [] then '' '' @ net else [])
     @ (case source of None \<Rightarrow> [] | Some s \<Rightarrow> '' '' @ Addr_String s)
     @ (case addr of None \<Rightarrow> []
        | Some a \<Rightarrow> (if source \<noteq> None then ''->'' else '' '') @ Addr_String a)
     @ '': '' @ Error e"

text \<open>\<^verbatim>\<open>strings.Contains(s, substr)\<close>: \<open>substr\<close> occurs in \<open>s\<close> as a contiguous run.\<close>

definition strings_Contains :: "string \<Rightarrow> string \<Rightarrow> bool" where
  "strings_Contains s substr = sublist substr s"

datatype errOp =
    opAccept
  | opClose
  | opDial
  | opListen
  | opRawControl
  | opRawRead
  | opRawWrite
  | opRead
  | opSet
  | opSyscallConn
  | opWrite

fun errOp_String :: "errOp \<Rightarrow> string" where
  "errOp_String opAccept = ''accept''"
| "errOp_String opClose = ''close''"
| "errOp_String opDial = ''dial''"
| "errOp_String opListen = ''listen''"
| "errOp_String opRawControl = ''raw-control''"
| "errOp_String opRawRead = ''raw-read''"
| "errOp_String opRawWrite = ''raw-write''"
| "errOp_String opRead = ''read''"
| "errOp_String opSet = ''set''"
| "errOp_String opSyscallConn = ''syscall-conn''"
| "errOp_String opWrite = ''write''"

definition isErrno :: "err \<Rightarrow> nat \<Rightarrow> bool" where
  "isErrno e errno =
     (if errno = ebadf then e = Errno EBADF
      else if errno = enotconn then e = Errno ENOTCONN
      else False)"

text \<open>
  The first switch of \<^verbatim>\<open>opError\<close>: a \<^verbatim>\<open>*os.PathError\<close> whose path is not
  \<^verbatim>\<open>/dev/vsock\<close> is replaced by the error it wraps.
\<close>

definition unwrapPathError :: "err \<Rightarrow> err" where
  "unwrapPathError e =
     (case e of
        PathError _ path inner \<Rightarrow> if path \<noteq> devVsock then inner else e
      | _ \<Rightarrow> e)"

definition closedCause :: err where
  "closedCause = ErrorString ''use of closed network connection''"

definition opError :: "errOp \<Rightarrow> err option \<Rightarrow> Addr option \<Rightarrow> Addr option \<Rightarrow> err option" where
  "opError op e local remote =
     (case e of
        None \<Rightarrow> None
      | Some e0 \<Rightarrow>
          let e1 = unwrapPathError e0 in
          if e1 = EOF \<or> isErrno e1 enotconn then Some EOF
          else
            let e2 = (if e1 = ErrClosed \<or> isErrno e1 ebadf
                         \<or> strings_Contains (Error e1) ''use of closed''
                      then closedCause else e1);
                (source, addr) =
                  (case op of
                     opClose \<Rightarrow> (local, remote)
                   | opDial \<Rightarrow> (local, remote)
                   | opRawRead \<Rightarrow> (local, remote)
                   | opRawWrite \<Rightarrow> (local, remote)
                   | opRead \<Rightarrow> (local, remote)
                   | opWrite \<Rightarrow> (local, remote)
                   | opAccept \<Rightarrow> (None, local)
                   | opListen \<Rightarrow> (None, local)
                   | opRawControl \<Rightarrow> (None, local)
                   | opSet \<Rightarrow> (None, local)
                   | opSyscallConn \<Rightarrow> (None, local))
            in Some (OpError (errOp_String op) network source addr e2))"

section \<open>The platform: descriptors, files and the poller\<close>

text \<open>
  The operating system and Go's \<^verbatim>\<open>os\<close> package are the environment of the package.
  A system call's outcome is an input of the model; the calls a function makes are
  returned as a trace, in order. \<open>None\<close> is a nil error.
\<close>

datatype sockaddr = SockaddrVM u32 u32 | SockaddrUnix string

datatype syscall =
    SysSocket bool
  | SysCloseOnExec int
  | SysConnect int sockaddr
  | SysBind int sockaddr
  | SysListen int int
  | SysGetsockname int
  | SysSetNonblock int
  | SysClose int

definition VMADDR_PORT_ANY :: u32 where "VMADDR_PORT_ANY = 0xffffffff"
definition SOCK_CLOEXEC :: int where "SOCK_CLOEXEC = 0x80000"
definition SHUT_RD :: int where "SHUT_RD = 0"
definition SHUT_WR :: int where "SHUT_WR = 1"

record sys_env =
  socket_r :: "nat + int"
  socket_fallback_r :: "nat + int"
  connect_r :: "nat option"
  bind_r :: "nat option"
  listen_r :: "nat option"
  getsockname_r :: "nat + sockaddr"
  setnonblock_r :: "nat option"
  close_r :: "nat option"

text \<open>
  An \<^verbatim>\<open>*os.File\<close> over a descriptor: its name and whether it has been closed.
  \<^verbatim>\<open>os.NewFile\<close> returns nil for a negative descriptor.
\<close>

record File =
  File_name :: string
  File_closed :: bool

definition os_NewFile :: "int \<Rightarrow> string \<Rightarrow> File option" where
  "os_NewFile fd name =
     (if fd < 0 then None else Some \<lparr>File_name = name, File_closed = False\<rparr>)"

definition ErrFileClosing :: err where
  "ErrFileClosing = ErrorString ''use of closed file''"

text \<open>
  \<^verbatim>\<open>(*os.File).wrapErr\<close>: nil and \<^verbatim>\<open>io.EOF\<close> pass, the poller's closing error
  becomes \<^verbatim>\<open>os.ErrClosed\<close>, and the error is wrapped with the operation and the
  file's name.
\<close>

definition wrapErr :: "File \<Rightarrow> string \<Rightarrow> err option \<Rightarrow> err option" where
  "wrapErr file op e =
     (case e of
        None \<Rightarrow> None
      | Some e' \<Rightarrow>
          if e' = EOF then Some EOF
          else Some (PathError op (File_name file)
                       (if e' = ErrFileClosing then ErrClosed else e')))"

text \<open>
  \<^verbatim>\<open>(*os.File).Close\<close>: \<^verbatim>\<open>os.ErrInvalid\<close> on a nil file; on a file already closed
  the closing error, wrapped; otherwise the file is closed and the outcome \<open>r\<close> of
  \<^verbatim>\<open>close(2)\<close> is reported, wrapped.
\<close>

definition File_Close :: "File option \<Rightarrow> nat option \<Rightarrow> File option \<times> err option" where
  "File_Close f r =
     (case f of
        None \<Rightarrow> (None, Some ErrInvalid)
      | Some file \<Rightarrow>
          if File_closed file then (f, wrapErr file ''close'' (Some ErrFileClosing))
          else (Some (file\<lparr>File_closed := True\<rparr>),
                wrapErr file ''close'' (map_option Errno r)))"

text \<open>
  The outcome of the readiness-integrated \<^verbatim>\<open>read(2)\<close> or \<^verbatim>\<open>write(2)\<close> under a file:
  a byte count, or an error (an error number, or an error of the poller such as a
  deadline that passed or a close by another task).
\<close>

datatype io_res = IoBytes nat | IoErr err

text \<open>
  \<^verbatim>\<open>(*os.File).Read\<close> into a buffer of \<open>len_b\<close> bytes: zero bytes read from a
  stream is \<^verbatim>\<open>io.EOF\<close>; with any error the count is 0.
\<close>

definition File_Read :: "File option \<Rightarrow> nat \<Rightarrow> io_res \<Rightarrow> nat \<times> err option" where
  "File_Read f len_b r =
     (case f of
        None \<Rightarrow> (0, Some ErrInvalid)
      | Some file \<Rightarrow>
          if File_closed file then (0, wrapErr file ''read'' (Some ErrFileClosing))
          else if len_b = 0 then (0, None)
          else (case r of
                  IoBytes n \<Rightarrow> if n = 0 then (0, Some EOF) else (min n len_b, None)
                | IoErr e \<Rightarrow> (0, wrapErr file ''read'' (Some e))))"

text \<open>\<^verbatim>\<open>(*os.File).SyscallConn\<close> fails only on a nil file.\<close>

definition File_SyscallConn :: "File option \<Rightarrow> err + File" where
  "File_SyscallConn f = (case f of None \<Rightarrow> Inl ErrInvalid | Some file \<Rightarrow> Inr file)"

text \<open>
  \<^verbatim>\<open>RawConn.Control(fn)\<close>: on a closed file \<open>fn\<close> is not run and the closing error
  is returned; otherwise \<open>fn\<close> runs once (here: its system call has outcome \<open>r\<close>).
\<close>

definition os_rawConn_Control :: "File \<Rightarrow> 'r \<Rightarrow> 'r option \<times> err option" where
  "os_rawConn_Control file r =
     (if File_closed file then (None, Some ErrFileClosing) else (Some r, None))"

text \<open>
  \<^verbatim>\<open>RawConn.Read(fn)\<close>: \<open>fn\<close> is called until it returns true, the poller waiting
  for readiness between two calls. The environment is a script: \<open>Call r\<close> says that
  the descriptor is (or becomes) ready and the system call inside \<open>fn\<close> has outcome
  \<open>r\<close>; \<open>WaitFail e\<close> says that the wait ends with \<open>e\<close> (a deadline, a close by
  another task) and \<open>fn\<close> is not called again. The state \<open>s\<close> is what \<open>fn\<close> has
  assigned so far. A script that ends while \<open>fn\<close> has not returned true leaves the
  call waiting: \<open>None\<close>.
\<close>

datatype 'r poll_ev = Call 'r | WaitFail err

fun RawRead :: "('r \<Rightarrow> 's \<times> bool) \<Rightarrow> 'r poll_ev list \<Rightarrow> 's \<Rightarrow> ('s \<times> err option) option" where
  "RawRead fn [] s = None"
| "RawRead fn (WaitFail e # evs) s = Some (s, Some e)"
| "RawRead fn (Call r # evs) s =
     (case fn r of
        (s', True) \<Rightarrow> Some (s', None)
      | (s', False) \<Rightarrow> RawRead fn evs s')"

definition os_rawConn_Read ::
  "File \<Rightarrow> ('r \<Rightarrow> 's \<times> bool) \<Rightarrow> 'r poll_ev list \<Rightarrow> 's \<Rightarrow> ('s \<times> err option) option" where
  "os_rawConn_Read file fn evs s =
     (if File_closed file then Some (s, Some ErrFileClosing) else RawRead fn evs s)"

text \<open>
  \<^verbatim>\<open>unix.Accept4\<close>: a new descriptor and the peer's address, or \<open>-1\<close>, a nil
  address and the error number.
\<close>

datatype accept_res = Accepted int sockaddr | AcceptFailed nat

fun unix_Accept4 :: "accept_res \<Rightarrow> int \<times> sockaddr option \<times> err option" where
  "unix_Accept4 (Accepted nfd sa) = (nfd, Some sa, None)"
| "unix_Accept4 (AcceptFailed e) = (-1, None, Some (Errno e))"

text \<open>What a function does: it returns, or it panics.\<close>

datatype 'a exec = Return 'a | Panic

section \<open>Socket descriptors\<close>

text \<open>
  \<^verbatim>\<open>sysConnFD\<close> and \<^verbatim>\<open>sysListenFD\<close>: the descriptor number, used in blocking mode,
  and the file over it, nil until \<^verbatim>\<open>setNonblocking\<close> has run. A Go pair
  \<^verbatim>\<open>(value, error)\<close> of which exactly one is set is a sum, \<open>Inl\<close> the error.
\<close>

record sysConnFD =
  sysConnFD_fd :: int
  sysConnFD_f :: "File option"

record sysListenFD =
  sysListenFD_fd :: int
  sysListenFD_f :: "File option"

definition socket :: "sys_env \<Rightarrow> (err + int) \<times> syscall list" where
  "socket env =
     (case socket_r env of
        Inr fd \<Rightarrow> (Inr fd, [SysSocket True])
      | Inl e \<Rightarrow>
          if e = EINVAL then
            (case socket_fallback_r env of
               Inl e' \<Rightarrow> (Inl (Errno e'), [SysSocket True, SysSocket False])
             | Inr fd \<Rightarrow> (Inr fd, [SysSocket True, SysSocket False, SysCloseOnExec fd]))
          else (Inl (Errno e), [SysSocket True]))"

definition newConnFD :: "sys_env \<Rightarrow> (err + sysConnFD) \<times> syscall list" where
  "newConnFD env =
     (case socket env of
        (Inl e, t) \<Rightarrow> (Inl e, t)
      | (Inr fd, t) \<Rightarrow> (Inr \<lparr>sysConnFD_fd = fd, sysConnFD_f = None\<rparr>, t))"

definition newListenFD :: "sys_env \<Rightarrow> (err + sysListenFD) \<times> syscall list" where
  "newListenFD env =
     (case socket env of
        (Inl e, t) \<Rightarrow> (Inl e, t)
      | (Inr fd, t) \<Rightarrow> (Inr \<lparr>sysListenFD_fd = fd, sysListenFD_f = None\<rparr>, t))"

definition sysConnFD_Connect :: "sysConnFD \<Rightarrow> sockaddr \<Rightarrow> sys_env \<Rightarrow> err option \<times> syscall list" where
  "sysConnFD_Connect self sa env =
     (map_option Errno (connect_r env), [SysConnect (sysConnFD_fd self) sa])"

definition sysConnFD_Getsockname :: "sysConnFD \<Rightarrow> sys_env \<Rightarrow> (err + sockaddr) \<times> syscall list" where
  "sysConnFD_Getsockname self env =
     (map_sum Errno id (getsockname_r env), [SysGetsockname (sysConnFD_fd self)])"

definition sysConnFD_EarlyClose :: "sysConnFD \<Rightarrow> sys_env \<Rightarrow> err option \<times> syscall list" where
  "sysConnFD_EarlyClose self env =
     (map_option Errno (close_r env), [SysClose (sysConnFD_fd self)])"

definition sysConnFD_setNonblocking ::
  "sysConnFD \<Rightarrow> string \<Rightarrow> sys_env \<Rightarrow> (sysConnFD \<times> err option) \<times> syscall list" where
  "sysConnFD_setNonblocking self name env =
     (case setnonblock_r env of
        Some e \<Rightarrow> ((self, Some (Errno e)), [SysSetNonblock (sysConnFD_fd self)])
      | None \<Rightarrow>
          ((self\<lparr>sysConnFD_f := os_NewFile (sysConnFD_fd self) name\<rparr>, None),
           [SysSetNonblock (sysConnFD_fd self)]))"

definition sysConnFD_SetNonblocking ::
  "sysConnFD \<Rightarrow> string \<Rightarrow> sys_env \<Rightarrow> (sysConnFD \<times> err option) \<times> syscall list" where
  "sysConnFD_SetNonblocking self name env = sysConnFD_setNonblocking self name env"

definition sysConnFD_Close :: "sysConnFD \<Rightarrow> nat option \<Rightarrow> sysConnFD \<times> err option" where
  "sysConnFD_Close self r =
     (case File_Close (sysConnFD_f self) r of
        (f', e) \<Rightarrow> (self\<lparr>sysConnFD_f := f'\<rparr>, e))"

definition sysConnFD_Read :: "sysConnFD \<Rightarrow> nat \<Rightarrow> io_res \<Rightarrow> nat \<times> err option" where
  "sysConnFD_Read self len_b r = File_Read (sysConnFD_f self) len_b r"

text \<open>
  \<^verbatim>\<open>sysConnFD.shutdown\<close>: \<open>r\<close> is the outcome of \<^verbatim>\<open>unix.Shutdown\<close>, should
  \<^verbatim>\<open>Control\<close> run the function.
\<close>

definition sysConnFD_shutdown :: "sysConnFD \<Rightarrow> int \<Rightarrow> nat option \<Rightarrow> err option" where
  "sysConnFD_shutdown self how r =
     (case File_SyscallConn (sysConnFD_f self) of
        Inl e \<Rightarrow> Some e
      | Inr rc \<Rightarrow>
          (case os_rawConn_Control rc r of
             (_, Some doErr) \<Rightarrow> Some doErr
           | (None, None) \<Rightarrow> None
           | (Some r', None) \<Rightarrow> map_option Errno r'))"

definition itoa_int :: "int \<Rightarrow> string" where
  "itoa_int i = (if i < 0 then ''-'' @ itoa (nat (- i)) else itoa (nat i))"

definition invalidHow :: "int \<Rightarrow> err" where
  "invalidHow how =
     ErrorString (''vsock: sysConnFD.Shutdown method invoked with invalid how constant: ''
                  @ itoa_int how)"

definition sysConnFD_Shutdown :: "sysConnFD \<Rightarrow> int \<Rightarrow> nat option \<Rightarrow> err option" where
  "sysConnFD_Shutdown self how r =
     (if how = SHUT_RD \<or> how = SHUT_WR then sysConnFD_shutdown self how r
      else Some (invalidHow how))"

definition sysListenFD_Bind :: "sysListenFD \<Rightarrow> sockaddr \<Rightarrow> sys_env \<Rightarrow> err option \<times> syscall list" where
  "sysListenFD_Bind self sa env =
     (map_option Errno (bind_r env), [SysBind (sysListenFD_fd self) sa])"

definition sysListenFD_Listen :: "sysListenFD \<Rightarrow> int \<Rightarrow> sys_env \<Rightarrow> err option \<times> syscall list" where
  "sysListenFD_Listen self n env =
     (map_option Errno (listen_r env), [SysListen (sysListenFD_fd self) n])"

definition sysListenFD_Getsockname :: "sysListenFD \<Rightarrow> sys_env \<Rightarrow> (err + sockaddr) \<times> syscall list" where
  "sysListenFD_Getsockname self env =
     (map_sum Errno id (getsockname_r env), [SysGetsockname (sysListenFD_fd self)])"

definition sysListenFD_EarlyClose :: "sysListenFD \<Rightarrow> sys_env \<Rightarrow> err option \<times> syscall list" where
  "sysListenFD_EarlyClose self env =
     (map_option Errno (close_r env), [SysClose (sysListenFD_fd self)])"

definition sysListenFD_setNonblocking ::
  "sysListenFD \<Rightarrow> string \<Rightarrow> sys_env \<Rightarrow> (sysListenFD \<times> err option) \<times> syscall list" where
  "sysListenFD_setNonblocking self name env =
     (case setnonblock_r env of
        Some e \<Rightarrow> ((self, Some (Errno e)), [SysSetNonblock (sysListenFD_fd self)])
      | None \<Rightarrow>
          ((self\<lparr>sysListenFD_f := os_NewFile (sysListenFD_fd self) name\<rparr>, None),
           [SysSetNonblock (sysListenFD_fd self)]))"

definition sysListenFD_SetNonblocking ::
  "sysListenFD \<Rightarrow> string \<Rightarrow> sys_env \<Rightarrow> (sysListenFD \<times> err option) \<times> syscall list" where
  "sysListenFD_SetNonblocking self name env = sysListenFD_setNonblocking self name env"

definition sysListenFD_Close :: "sysListenFD \<Rightarrow> nat option \<Rightarrow> sysListenFD \<times> err option" where
  "sysListenFD_Close self r =
     (case File_Close (sysListenFD_f self) r of
        (f', e) \<Rightarrow> (self\<lparr>sysListenFD_f := f'\<rparr>, e))"

text \<open>
  \<^verbatim>\<open>sysListenFD.accept4\<close>. The function given to \<^verbatim>\<open>RawConn.Read\<close> assigns the three
  results of \<^verbatim>\<open>unix.Accept4\<close> to the named results and answers false (call me again
  when ready) on \<^verbatim>\<open>EAGAIN\<close> and \<^verbatim>\<open>ECONNABORTED\<close>. What \<^verbatim>\<open>RawConn.Read\<close> returns
  is dropped, and the last statement returns a nil error whatever \<open>err\<close> holds.
\<close>

definition accept4_fn :: "int \<Rightarrow> accept_res \<Rightarrow> (int \<times> sockaddr option \<times> err option) \<times> bool" where
  "accept4_fn flags r =
     (case unix_Accept4 r of
        (newFD, socketAddress, e) \<Rightarrow>
          ((newFD, socketAddress, e),
           (if e = Some (Errno EAGAIN) \<or> e = Some (Errno ECONNABORTED) then False else True)))"

definition sysListenFD_accept4 ::
  "sysListenFD \<Rightarrow> int \<Rightarrow> accept_res poll_ev list \<Rightarrow> (int \<times> sockaddr option \<times> err option) option" where
  "sysListenFD_accept4 self flags evs =
     (case File_SyscallConn (sysListenFD_f self) of
        Inl e \<Rightarrow> Some (0, None, Some e)
      | Inr rawConn \<Rightarrow>
          (case os_rawConn_Read rawConn (accept4_fn flags) evs (0, None, None) of
             None \<Rightarrow> None
           | Some ((newFD, socketAddress, e), _) \<Rightarrow> Some (newFD, socketAddress, None)))"

definition sysListenFD_Accept4 ::
  "sysListenFD \<Rightarrow> int \<Rightarrow> accept_res poll_ev list \<Rightarrow> (err + sysConnFD \<times> sockaddr option) option" where
  "sysListenFD_Accept4 self flags evs =
     (case sysListenFD_accept4 self flags evs of
        None \<Rightarrow> None
      | Some (newFD, socketAddress, Some e) \<Rightarrow> Some (Inl e)
      | Some (newFD, socketAddress, None) \<Rightarrow>
          Some (Inr (\<lparr>sysConnFD_fd = newFD, sysConnFD_f = None\<rparr>, socketAddress)))"

section \<open>Connections: dial\<close>

record Conn =
  Conn_fd :: sysConnFD
  Conn_local :: Addr
  Conn_remote :: Addr

definition newConn :: "sysConnFD \<Rightarrow> Addr \<Rightarrow> Addr \<Rightarrow> sys_env \<Rightarrow> (err + Conn) \<times> syscall list" where
  "newConn cfd local remote env =
     (case sysConnFD_SetNonblocking cfd (fileName local) env of
        ((cfd', Some e), t) \<Rightarrow> (Inl e, t)
      | ((cfd', None), t) \<Rightarrow>
          (Inr \<lparr>Conn_fd = cfd', Conn_local = local, Conn_remote = remote\<rparr>, t))"

text \<open>
  The deferred function of \<^verbatim>\<open>dialLinux\<close> reads the named result \<open>err\<close>, which every
  \<^verbatim>\<open>return\<close> has set when it runs.
\<close>

definition dialLinux_deferred :: "sysConnFD \<Rightarrow> err option \<Rightarrow> sys_env \<Rightarrow> syscall list" where
  "dialLinux_deferred cfd e env =
     (if e \<noteq> None then snd (sysConnFD_EarlyClose cfd env) else [])"

definition dialLinux ::
  "sysConnFD \<Rightarrow> u32 \<Rightarrow> u32 \<Rightarrow> sys_env \<Rightarrow> (err + Conn) exec \<times> syscall list" where
  "dialLinux cfd cid port env =
     (let rsa = SockaddrVM cid port in
      case sysConnFD_Connect cfd rsa env of
        (Some e, t1) \<Rightarrow> (Return (Inl e), t1 @ dialLinux_deferred cfd (Some e) env)
      | (None, t1) \<Rightarrow>
          (case sysConnFD_Getsockname cfd env of
             (Inl e, t2) \<Rightarrow> (Return (Inl e), t1 @ t2 @ dialLinux_deferred cfd (Some e) env)
           | (Inr lsa, t2) \<Rightarrow>
               (case lsa of
                  SockaddrVM lcid lport \<Rightarrow>
                    (let local = \<lparr>ContextID = lcid, Port = lport\<rparr>;
                         remote = \<lparr>ContextID = cid, Port = port\<rparr>
                     in case newConn cfd local remote env of
                          (Inl e, t3) \<Rightarrow>
                            (Return (Inl e), t1 @ t2 @ t3 @ dialLinux_deferred cfd (Some e) env)
                        | (Inr c, t3) \<Rightarrow>
                            (Return (Inr c), t1 @ t2 @ t3 @ dialLinux_deferred cfd None env))
                | _ \<Rightarrow> (Panic, t1 @ t2 @ dialLinux_deferred cfd None env))))"

definition dial :: "u32 \<Rightarrow> u32 \<Rightarrow> sys_env \<Rightarrow> (err + Conn) exec \<times> syscall list" where
  "dial cid port env =
     (case newConnFD env of
        (Inl e, t) \<Rightarrow> (Return (Inl e), t)
      | (Inr cfd, t) \<Rightarrow> (case dialLinux cfd cid port env of (r, t') \<Rightarrow> (r, t @ t')))"

section \<open>Listeners: listen and accept\<close>

record listener =
  listener_fd :: sysListenFD
  listener_addr :: Addr

record VsockListener =
  VsockListener_listener :: listener

text \<open>
  The deferred function of \<^verbatim>\<open>listenLinux\<close> reads the variable \<open>err\<close> that the
  function declares first (\<^verbatim>\<open>var err error\<close>); \<^verbatim>\<open>listenLinux\<close> has no named
  results. The \<open>err\<close> of \<^verbatim>\<open>if err := lfd.Bind(sa); err != nil\<close> (and of the two
  statements of that form after it) is a new variable of the \<^verbatim>\<open>if\<close>; only
  \<^verbatim>\<open>lsa, err := lfd.Getsockname()\<close> assigns the declared one. The second argument
  below is the declared variable's value when the function leaves.
\<close>

definition listenLinux_deferred :: "sysListenFD \<Rightarrow> err option \<Rightarrow> sys_env \<Rightarrow> syscall list" where
  "listenLinux_deferred lfd e env =
     (if e \<noteq> None then snd (sysListenFD_EarlyClose lfd env) else [])"

definition listenLinux ::
  "int \<Rightarrow> sysListenFD \<Rightarrow> u32 \<Rightarrow> u32 \<Rightarrow> sys_env \<Rightarrow> (err + VsockListener) exec \<times> syscall list" where
  "listenLinux SOMAXCONN lfd cid port0 env =
     (let port = (if port0 = 0 then VMADDR_PORT_ANY else port0);
          sa = SockaddrVM cid port
      in case sysListenFD_Bind lfd sa env of
           (Some e, t1) \<Rightarrow> (Return (Inl e), t1 @ listenLinux_deferred lfd None env)
         | (None, t1) \<Rightarrow>
             (case sysListenFD_Listen lfd SOMAXCONN env of
                (Some e, t2) \<Rightarrow> (Return (Inl e), t1 @ t2 @ listenLinux_deferred lfd None env)
              | (None, t2) \<Rightarrow>
                  (case sysListenFD_Getsockname lfd env of
                     (Inl e, t3) \<Rightarrow>
                       (Return (Inl e), t1 @ t2 @ t3 @ listenLinux_deferred lfd (Some e) env)
                   | (Inr lsa, t3) \<Rightarrow>
                       (case sysListenFD_SetNonblocking lfd ''vsock-listen'' env of
                          ((lfd', Some e), t4) \<Rightarrow>
                            (Return (Inl e),
                             t1 @ t2 @ t3 @ t4 @ listenLinux_deferred lfd None env)
                        | ((lfd', None), t4) \<Rightarrow>
                            (case lsa of
                               SockaddrVM lcid lport \<Rightarrow>
                                 (Return (Inr \<lparr>VsockListener_listener =
                                    \<lparr>listener_fd = lfd',
                                     listener_addr = \<lparr>ContextID = lcid, Port = lport\<rparr>\<rparr>\<rparr>),
                                  t1 @ t2 @ t3 @ t4 @ listenLinux_deferred lfd' None env)
                             | _ \<Rightarrow>
                                 (Panic,
                                  t1 @ t2 @ t3 @ t4 @ listenLinux_deferred lfd' None env))))))"

definition listen ::
  "int \<Rightarrow> u32 \<Rightarrow> u32 \<Rightarrow> sys_env \<Rightarrow> (err + VsockListener) exec \<times> syscall list" where
  "listen SOMAXCONN cid port env =
     (case newListenFD env of
        (Inl e, t) \<Rightarrow> (Return (Inl e), t)
      | (Inr lfd, t) \<Rightarrow>
          (case listenLinux SOMAXCONN lfd cid port env of (r, t') \<Rightarrow> (r, t @ t')))"

definition listener_Addr :: "listener \<Rightarrow> Addr" where
  "listener_Addr self = listener_addr self"

definition listener_Close :: "listener \<Rightarrow> nat option \<Rightarrow> listener \<times> err option" where
  "listener_Close self r =
     (case sysListenFD_Close (listener_fd self) r of
        (lfd', e) \<Rightarrow> (self\<lparr>listener_fd := lfd'\<rparr>, e))"

text \<open>
  \<^verbatim>\<open>listener.Accept\<close>. The type assertion \<^verbatim>\<open>sa.(*unix.SockaddrVM)\<close> has one result,
  so it panics on a nil address and on an address of another type. \<open>evs\<close> is the
  poller's script for the accept, \<open>env\<close> gives the outcome of making the new
  descriptor non-blocking.
\<close>

definition listener_Accept ::
  "listener \<Rightarrow> accept_res poll_ev list \<Rightarrow> sys_env \<Rightarrow> ((err + Conn) exec \<times> syscall list) option" where
  "listener_Accept self evs env =
     (case sysListenFD_Accept4 (listener_fd self) SOCK_CLOEXEC evs of
        None \<Rightarrow> None
      | Some (Inl e) \<Rightarrow> Some (Return (Inl e), [])
      | Some (Inr (cfd, sa)) \<Rightarrow>
          (case sa of
             Some (SockaddrVM scid sport) \<Rightarrow>
               (let remote = \<lparr>ContextID = scid, Port = sport\<rparr>
                in case newConn cfd (listener_addr self) remote env of
                     (r, t) \<Rightarrow> Some (Return r, t))
           | _ \<Rightarrow> Some (Panic, [])))"

section \<open>The public operations\<close>

text \<open>
  \<^verbatim>\<open>contextID\<close>: \<^verbatim>\<open>os.Open\<close> of \<^verbatim>\<open>/dev/vsock\<close> fails with a \<^verbatim>\<open>*os.PathError\<close>
  on that path; \<^verbatim>\<open>unix.IoctlGetUint32\<close> returns its value and its error.
\<close>

record cid_env =
  open_r :: "nat option"
  ioctl_r :: "u32 \<times> nat option"

definition contextID :: "cid_env \<Rightarrow> u32 \<times> err option" where
  "contextID env =
     (case open_r env of
        Some e \<Rightarrow> (0, Some (PathError ''open'' devVsock (Errno e)))
      | None \<Rightarrow> (fst (ioctl_r env), map_option Errno (snd (ioctl_r env))))"

definition ContextID_fn :: "cid_env \<Rightarrow> u32 \<times> err option" where
  "ContextID_fn env = contextID env"

definition IsHypervisor :: "cid_env \<Rightarrow> bool" where
  "IsHypervisor env =
     (case ContextID_fn env of
        (cid, Some e) \<Rightarrow> False
      | (cid, None) \<Rightarrow> cid = Host)"

definition Listen ::
  "int \<Rightarrow> u32 \<Rightarrow> cid_env \<Rightarrow> sys_env \<Rightarrow> (VsockListener option \<times> err option) exec \<times> syscall list" where
  "Listen SOMAXCONN port cenv env =
     (case ContextID_fn cenv of
        (cid, Some e) \<Rightarrow> (Return (None, opError opListen (Some e) None None), [])
      | (cid, None) \<Rightarrow>
          (case listen SOMAXCONN cid port env of
             (Return (Inl e), t) \<Rightarrow>
               (Return (None, opError opListen (Some e)
                                (Some \<lparr>ContextID = cid, Port = port\<rparr>) None), t)
           | (Return (Inr l), t) \<Rightarrow> (Return (Some l, None), t)
           | (Panic, t) \<Rightarrow> (Panic, t)))"

definition VsockListener_Addr :: "VsockListener \<Rightarrow> Addr" where
  "VsockListener_Addr self = listener_Addr (VsockListener_listener self)"

definition VsockListener_opError :: "VsockListener \<Rightarrow> errOp \<Rightarrow> err option \<Rightarrow> err option" where
  "VsockListener_opError self op e = opError op e (Some (VsockListener_Addr self)) None"

definition VsockListener_Accept ::
  "VsockListener \<Rightarrow> accept_res poll_ev list \<Rightarrow> sys_env
     \<Rightarrow> ((Conn option \<times> err option) exec \<times> syscall list) option" where
  "VsockListener_Accept self evs env =
     (case listener_Accept (VsockListener_listener self) evs env of
        None \<Rightarrow> None
      | Some (Panic, t) \<Rightarrow> Some (Panic, t)
      | Some (Return (Inl e), t) \<Rightarrow>
          Some (Return (None, VsockListener_opError self opAccept (Some e)), t)
      | Some (Return (Inr c), t) \<Rightarrow> Some (Return (Some c, None), t))"

definition VsockListener_Close :: "VsockListener \<Rightarrow> nat option \<Rightarrow> VsockListener \<times> err option" where
  "VsockListener_Close self r =
     (case listener_Close (VsockListener_listener self) r of
        (l', e) \<Rightarrow> (self\<lparr>VsockListener_listener := l'\<rparr>, VsockListener_opError self opClose e))"

text \<open>
  The deadline setters of \<^verbatim>\<open>*os.File\<close>: \<open>r\<close> is the poller's answer on an open file
  (the time itself is not modelled).
\<close>

definition File_SetDeadline :: "File option \<Rightarrow> err option \<Rightarrow> err option" where
  "File_SetDeadline f r =
     (case f of
        None \<Rightarrow> Some ErrInvalid
      | Some file \<Rightarrow> if File_closed file then Some ErrFileClosing else r)"

definition sysListenFD_SetDeadline :: "sysListenFD \<Rightarrow> err option \<Rightarrow> err option" where
  "sysListenFD_SetDeadline self r = File_SetDeadline (sysListenFD_f self) r"

definition listener_SetDeadline :: "listener \<Rightarrow> err option \<Rightarrow> err option" where
  "listener_SetDeadline self r = sysListenFD_SetDeadline (listener_fd self) r"

definition VsockListener_SetDeadline :: "VsockListener \<Rightarrow> err option \<Rightarrow> err option" where
  "VsockListener_SetDeadline self r =
     VsockListener_opError self opSet (listener_SetDeadline (VsockListener_listener self) r)"

definition Dial :: "u32 \<Rightarrow> u32 \<Rightarrow> sys_env \<Rightarrow> (Conn option \<times> err option) exec \<times> syscall list" where
  "Dial cid port env =
     (case dial cid port env of
        (Return (Inl e), t) \<Rightarrow>
          (Return (None, opError opDial (Some e) None
                           (Some \<lparr>ContextID = cid, Port = port\<rparr>)), t)
      | (Return (Inr c), t) \<Rightarrow> (Return (Some c, None), t)
      | (Panic, t) \<Rightarrow> (Panic, t))"

definition Conn_opError :: "Conn \<Rightarrow> errOp \<Rightarrow> err option \<Rightarrow> err option" where
  "Conn_opError c op e = opError op e (Some (Conn_local c)) (Some (Conn_remote c))"

definition Conn_Close :: "Conn \<Rightarrow> nat option \<Rightarrow> Conn \<times> err option" where
  "Conn_Close self r =
     (case sysConnFD_Close (Conn_fd self) r of
        (cfd', e) \<Rightarrow> (self\<lparr>Conn_fd := cfd'\<rparr>, Conn_opError self opClose e))"

definition Conn_CloseRead :: "Conn \<Rightarrow> nat option \<Rightarrow> err option" where
  "Conn_CloseRead self r =
     Conn_opError self opClose (sysConnFD_Shutdown (Conn_fd self) shutRd r)"

definition Conn_CloseWrite :: "Conn \<Rightarrow> nat option \<Rightarrow> err option" where
  "Conn_CloseWrite self r =
     Conn_opError self opClose (sysConnFD_Shutdown (Conn_fd self) shutWr r)"

definition Conn_Read :: "Conn \<Rightarrow> nat \<Rightarrow> io_res \<Rightarrow> nat \<times> err option" where
  "Conn_Read self len_b r =
     (case sysConnFD_Read (Conn_fd self) len_b r of
        (n, Some e) \<Rightarrow> (n, Conn_opError self opRead (Some e))
      | (n, None) \<Rightarrow> (n, None))"

text \<open>
  \<^verbatim>\<open>(*os.File).Write\<close>: \<open>r\<close> is the count written and the error of the write under
  the file; a count short of the buffer without an error is \<^verbatim>\<open>io.ErrShortWrite\<close>.
\<close>

definition File_Write :: "File option \<Rightarrow> nat \<Rightarrow> nat \<times> err option \<Rightarrow> nat \<times> err option" where
  "File_Write f len_b r =
     (case f of
        None \<Rightarrow> (0, Some ErrInvalid)
      | Some file \<Rightarrow>
          if File_closed file then (0, wrapErr file ''write'' (Some ErrFileClosing))
          else (case r of
                  (n, Some e) \<Rightarrow> (n, wrapErr file ''write'' (Some e))
                | (n, None) \<Rightarrow>
                    (n, if n \<noteq> len_b then Some (ErrorString ''short write'') else None)))"

definition sysConnFD_Write :: "sysConnFD \<Rightarrow> nat \<Rightarrow> nat \<times> err option \<Rightarrow> nat \<times> err option" where
  "sysConnFD_Write self len_b r = File_Write (sysConnFD_f self) len_b r"

definition Conn_Write :: "Conn \<Rightarrow> nat \<Rightarrow> nat \<times> err option \<Rightarrow> nat \<times> err option" where
  "Conn_Write self len_b r =
     (case sysConnFD_Write (Conn_fd self) len_b r of
        (n, Some e) \<Rightarrow> (n, Conn_opError self opWrite (Some e))
      | (n, None) \<Rightarrow> (n, None))"

datatype deadlineType = deadline | readDeadline | writeDeadline

definition sysConnFD_setDeadline :: "sysConnFD \<Rightarrow> deadlineType \<Rightarrow> err option \<Rightarrow> err option" where
  "sysConnFD_setDeadline self typ r =
     (case typ of
        deadline \<Rightarrow> File_SetDeadline (sysConnFD_f self) r
      | readDeadline \<Rightarrow> File_SetDeadline (sysConnFD_f self) r
      | writeDeadline \<Rightarrow> File_SetDeadline (sysConnFD_f self) r)"

definition sysConnFD_SetDeadline :: "sysConnFD \<Rightarrow> deadlineType \<Rightarrow> err option \<Rightarrow> err option" where
  "sysConnFD_SetDeadline self typ r = sysConnFD_setDeadline self typ r"

definition Conn_SetDeadline :: "Conn \<Rightarrow> err option \<Rightarrow> err option" where
  "Conn_SetDeadline self r =
     Conn_opError self opSet (sysConnFD_SetDeadline (Conn_fd self) deadline r)"

definition Conn_SetReadDeadline :: "Conn \<Rightarrow> err option \<Rightarrow> err option" where
  "Conn_SetReadDeadline self r =
     Conn_opError self opSet (sysConnFD_SetDeadline (Conn_fd self) readDeadline r)"

definition Conn_SetWriteDeadline :: "Conn \<Rightarrow> err option \<Rightarrow> err option" where
  "Conn_SetWriteDeadline self r =
     Conn_opError self opSet (sysConnFD_SetDeadline (Conn_fd self) writeDeadline r)"

record rawConn =
  rawConn_rc :: File
  rawConn_local :: Addr
  rawConn_remote :: Addr

definition sysConnFD_SyscallConn :: "sysConnFD \<Rightarrow> err + File" where
  "sysConnFD_SyscallConn self = File_SyscallConn (sysConnFD_f self)"

definition Conn_SyscallConn :: "Conn \<Rightarrow> rawConn option \<times> err option" where
  "Conn_SyscallConn self =
     (case sysConnFD_SyscallConn (Conn_fd self) of
        Inl e \<Rightarrow> (None, Conn_opError self opSyscallConn (Some e))
      | Inr rc \<Rightarrow>
          (Some \<lparr>rawConn_rc = rc, rawConn_local = Conn_local self,
                 rawConn_remote = Conn_remote self\<rparr>, None))"

definition rawConn_opError :: "rawConn \<Rightarrow> errOp \<Rightarrow> err option \<Rightarrow> err option" where
  "rawConn_opError self op e =
     opError op e (Some (rawConn_local self)) (Some (rawConn_remote self))"

text \<open>
  The caller's function is its answers: none for \<^verbatim>\<open>Control\<close>, the script of
  \<open>done\<close> values for \<^verbatim>\<open>Read\<close> and \<^verbatim>\<open>Write\<close> (the poller's write loop has the
  shape of its read loop).
\<close>

definition rawConn_Control :: "rawConn \<Rightarrow> err option" where
  "rawConn_Control self =
     rawConn_opError self opRawControl (snd (os_rawConn_Control (rawConn_rc self) ()))"

definition rawConn_Read :: "rawConn \<Rightarrow> bool poll_ev list \<Rightarrow> err option option" where
  "rawConn_Read self evs =
     map_option (\<lambda>(u, e). rawConn_opError self opRawRead e)
       (os_rawConn_Read (rawConn_rc self) (\<lambda>done. ((), done)) evs ())"

definition rawConn_Write :: "rawConn \<Rightarrow> bool poll_ev list \<Rightarrow> err option option" where
  "rawConn_Write self evs =
     map_option (\<lambda>(u, e). rawConn_opError self opRawWrite e)
       (os_rawConn_Read (rawConn_rc self) (\<lambda>done. ((), done)) evs ())"

section \<open>The canonical error\<close>

text \<open>
  The envelope that the error handling design describes, as a predicate on what an
  operation tagged \<open>op\<close> returns as its error, given the local and the remote address
  of the endpoint (\<open>None\<close> for an address that is not known): no error, or a
  \<^verbatim>\<open>*net.OpError\<close> whose \<open>Op\<close> is the tag (one of the eleven strings), whose \<open>Net\<close>
  is \<^verbatim>\<open>vsock\<close>, and whose addresses follow the class of the operation.
\<close>

definition operationTags :: "string list" where
  "operationTags =
     [''dial'', ''listen'', ''accept'', ''close'', ''read'', ''write'', ''set'',
      ''raw-control'', ''raw-read'', ''raw-write'', ''syscall-conn'']"

definition envelope :: "errOp \<Rightarrow> Addr option \<Rightarrow> Addr option \<Rightarrow> err option \<Rightarrow> bool" where
  "envelope op local remote e =
     (case e of
        None \<Rightarrow> True
      | Some (OpError tag net source addr cause) \<Rightarrow>
          tag = errOp_String op \<and> tag \<in> set operationTags \<and> net = ''vsock''
          \<and> (if op \<in> set [opDial, opClose, opRead, opWrite, opRawRead, opRawWrite]
              then source = local \<and> addr = remote
              else source = None \<and> addr = local)
      | Some _ \<Rightarrow> False)"

section \<open>Properties: hypervisor detection and half-close\<close>

text \<open>
  Claim C9. \<^verbatim>\<open>IsHypervisor\<close> is true exactly when the discovery of the context ID
  succeeds and the ID is \<^verbatim>\<open>Host\<close>, which is 2. When the discovery fails (the device
  does not open, or the query on it fails) the answer is false; the result is a
  boolean, so no error reaches the caller.
\<close>

theorem IsHypervisor_iff_Host:
  "(IsHypervisor env \<longleftrightarrow> (\<exists>cid. ContextID_fn env = (cid, None) \<and> cid = Host))
   \<and> Host = 2
   \<and> (snd (ContextID_fn env) \<noteq> None \<longrightarrow> IsHypervisor env = False)
   \<and> (snd (ContextID_fn env) \<noteq> None \<longleftrightarrow> open_r env \<noteq> None \<or> snd (ioctl_r env) \<noteq> None)"
  by (auto simp: IsHypervisor_def ContextID_fn_def contextID_def Host_def
           split: option.splits prod.splits)

theorem IsHypervisor_iff_Host_witness:
  "snd (ContextID_fn \<lparr>open_r = Some 2, ioctl_r = (0, None)\<rparr>) \<noteq> None
   \<and> IsHypervisor \<lparr>open_r = Some 2, ioctl_r = (0, None)\<rparr> = False"
proof -
  have h: "snd (ContextID_fn \<lparr>open_r = Some 2, ioctl_r = (0, None)\<rparr>) \<noteq> None"
    by (simp add: ContextID_fn_def contextID_def)
  from IsHypervisor_iff_Host [of "\<lparr>open_r = Some 2, ioctl_r = (0, None)\<rparr>"] h
  show ?thesis by blast
qed

lemma shutdown_not_invalidHow: "sysConnFD_shutdown cfd how r \<noteq> Some (invalidHow how')"
  by (auto simp: sysConnFD_shutdown_def File_SyscallConn_def os_rawConn_Control_def
        invalidHow_def ErrFileClosing_def split: option.splits sum.splits prod.splits if_splits)

text \<open>
  Claim C10. The directions that \<^verbatim>\<open>CloseRead\<close> and \<^verbatim>\<open>CloseWrite\<close> pass,
  \<^verbatim>\<open>shutRd\<close> and \<^verbatim>\<open>shutWr\<close>, are the platform's \<^verbatim>\<open>SHUT_RD\<close> and \<^verbatim>\<open>SHUT_WR\<close>, the
  two that \<^verbatim>\<open>Shutdown\<close> accepts: both calls reach \<^verbatim>\<open>shutdown\<close>, and neither returns
  the error of an invalid direction.
\<close>

theorem half_close_direction_valid:
  "shutRd = 0 \<and> shutWr = 1 \<and> shutRd = SHUT_RD \<and> shutWr = SHUT_WR
   \<and> sysConnFD_Shutdown cfd shutRd r = sysConnFD_shutdown cfd SHUT_RD r
   \<and> sysConnFD_Shutdown cfd shutWr r = sysConnFD_shutdown cfd SHUT_WR r
   \<and> sysConnFD_Shutdown cfd shutRd r \<noteq> Some (invalidHow how)
   \<and> sysConnFD_Shutdown cfd shutWr r \<noteq> Some (invalidHow how)
   \<and> Conn_CloseRead c r = Conn_opError c opClose (sysConnFD_shutdown (Conn_fd c) SHUT_RD r)
   \<and> Conn_CloseWrite c r = Conn_opError c opClose (sysConnFD_shutdown (Conn_fd c) SHUT_WR r)"
  by (simp add: shutRd_def shutWr_def SHUT_RD_def SHUT_WR_def sysConnFD_Shutdown_def
        Conn_CloseRead_def Conn_CloseWrite_def shutdown_not_invalidHow)

section \<open>Properties: accept\<close>

lemma accept4_fn_transient:
  "e = EAGAIN \<or> e = ECONNABORTED \<Longrightarrow>
   accept4_fn flags (AcceptFailed e) = ((-1, None, Some (Errno e)), False)"
  by (auto simp: accept4_fn_def)

lemma listener_Accept_skips_transient:
  assumes "e = EAGAIN \<or> e = ECONNABORTED"
  shows "listener_Accept l (Call (AcceptFailed e) # evs) env = listener_Accept l evs env"
proof (cases "sysListenFD_f (listener_fd l)")
  case None
  then show ?thesis
    by (simp add: listener_Accept_def sysListenFD_Accept4_def sysListenFD_accept4_def
          File_SyscallConn_def)
next
  case (Some fl)
  show ?thesis
  proof (cases "File_closed fl")
    case True
    with Some show ?thesis
      by (simp add: listener_Accept_def sysListenFD_Accept4_def sysListenFD_accept4_def
            File_SyscallConn_def os_rawConn_Read_def)
  next
    case False
    show ?thesis
    proof (cases evs)
      case Nil
      with Some False assms show ?thesis
        by (simp add: listener_Accept_def sysListenFD_Accept4_def sysListenFD_accept4_def
              File_SyscallConn_def os_rawConn_Read_def accept4_fn_transient)
    next
      case (Cons ev evs')
      show ?thesis
      proof (cases ev)
        case (Call r)
        with Cons Some False assms show ?thesis
          by (simp add: listener_Accept_def sysListenFD_Accept4_def sysListenFD_accept4_def
                File_SyscallConn_def os_rawConn_Read_def accept4_fn_transient)
      next
        case (WaitFail e')
        with Cons Some False assms show ?thesis
          by (simp add: listener_Accept_def sysListenFD_Accept4_def sysListenFD_accept4_def
                File_SyscallConn_def os_rawConn_Read_def accept4_fn_transient)
      qed
    qed
  qed
qed

lemma listener_Accept_skips_transients:
  assumes "\<forall>e\<in>set es. e = EAGAIN \<or> e = ECONNABORTED"
  shows "listener_Accept l (map (\<lambda>e. Call (AcceptFailed e)) es @ evs) env
         = listener_Accept l evs env"
  using assms by (induction es) (simp_all add: listener_Accept_skips_transient)

lemma accept4_error_only_nil_file:
  "sysListenFD_accept4 self flags evs = Some (nfd, sa, Some e) \<Longrightarrow>
   sysListenFD_f self = None \<and> e = ErrInvalid"
  by (auto simp: sysListenFD_accept4_def File_SyscallConn_def split: option.splits prod.splits)

text \<open>
  The accept loop returns: on an open listener, a script that has a successful
  accept after any number of transient failures gives the new connection.
\<close>

lemma Accept_returns_after_transients:
  assumes "sysListenFD_f (listener_fd (VsockListener_listener vl)) = Some fl"
    and "\<not> File_closed fl"
    and "\<forall>e\<in>set es. e = EAGAIN \<or> e = ECONNABORTED"
    and "setnonblock_r env = None"
  shows "VsockListener_Accept vl
           (map (\<lambda>e. Call (AcceptFailed e)) es @ Call (Accepted nfd (SockaddrVM cid port)) # evs)
           env
         = Some (Return
                  (Some \<lparr>Conn_fd = \<lparr>sysConnFD_fd = nfd,
                                     sysConnFD_f =
                                       os_NewFile nfd
                                         (fileName (listener_addr (VsockListener_listener vl)))\<rparr>,
                         Conn_local = listener_addr (VsockListener_listener vl),
                         Conn_remote = \<lparr>ContextID = cid, Port = port\<rparr>\<rparr>, None),
                 [SysSetNonblock nfd])"
proof -
  have "listener_Accept (VsockListener_listener vl)
          (Call (Accepted nfd (SockaddrVM cid port)) # evs) env
        = Some (Return
                  (Inr \<lparr>Conn_fd = \<lparr>sysConnFD_fd = nfd,
                                     sysConnFD_f =
                                       os_NewFile nfd
                                         (fileName (listener_addr (VsockListener_listener vl)))\<rparr>,
                         Conn_local = listener_addr (VsockListener_listener vl),
                         Conn_remote = \<lparr>ContextID = cid, Port = port\<rparr>\<rparr>),
                 [SysSetNonblock nfd])"
    using assms(1,2,4)
    by (simp add: listener_Accept_def sysListenFD_Accept4_def
        sysListenFD_accept4_def File_SyscallConn_def os_rawConn_Read_def
        accept4_fn_def newConn_def sysConnFD_SetNonblocking_def sysConnFD_setNonblocking_def)
  then show ?thesis
    using assms(3)
    by (simp add: VsockListener_Accept_def listener_Accept_skips_transients)
qed

text \<open>
  Claim C6. Outcomes \<^verbatim>\<open>EAGAIN\<close> and \<^verbatim>\<open>ECONNABORTED\<close> of the accept system call are
  retried: whatever follows them in the poller's script, \<^verbatim>\<open>Accept\<close> returns what it
  returns without them, so the caller of \<^verbatim>\<open>Accept\<close> never sees them; and
  \<^verbatim>\<open>Accept4\<close> never returns either of them as its error.
\<close>

theorem accept_retries_transient:
  assumes "\<forall>e\<in>set es. e = EAGAIN \<or> e = ECONNABORTED"
  shows "VsockListener_Accept self (map (\<lambda>e. Call (AcceptFailed e)) es @ evs) env
           = VsockListener_Accept self evs env
         \<and> sysListenFD_Accept4 lfd flags evs' \<noteq> Some (Inl (Errno EAGAIN))
         \<and> sysListenFD_Accept4 lfd flags evs' \<noteq> Some (Inl (Errno ECONNABORTED))"
proof -
  have "VsockListener_Accept self (map (\<lambda>e. Call (AcceptFailed e)) es @ evs) env
           = VsockListener_Accept self evs env"
    using assms by (simp add: VsockListener_Accept_def listener_Accept_skips_transients)
  moreover have "sysListenFD_Accept4 lfd flags evs' \<noteq> Some (Inl (Errno x))" for x
    by (auto simp: sysListenFD_Accept4_def split: option.splits prod.splits
             dest: accept4_error_only_nil_file)
  ultimately show ?thesis by blast
qed

theorem accept_retries_transient_witness:
  "set [EAGAIN, ECONNABORTED, EAGAIN] = {EAGAIN, ECONNABORTED}
   \<and> VsockListener_Accept
       \<lparr>VsockListener_listener =
        \<lparr>listener_fd = \<lparr>sysListenFD_fd = 3, sysListenFD_f = os_NewFile 3 ''vsock-listen''\<rparr>,
         listener_addr = \<lparr>ContextID = 2, Port = 1024\<rparr>\<rparr>\<rparr>
       [Call (AcceptFailed EAGAIN), Call (AcceptFailed ECONNABORTED), Call (AcceptFailed EAGAIN),
        Call (Accepted 4 (SockaddrVM 3 5000))]
       \<lparr>socket_r = Inr 3, socket_fallback_r = Inr 3, connect_r = None, bind_r = None,
        listen_r = None, getsockname_r = Inr (SockaddrVM 2 1024), setnonblock_r = None,
        close_r = None\<rparr>
     = Some (Return (Some \<lparr>Conn_fd = \<lparr>sysConnFD_fd = 4,
                 sysConnFD_f = Some \<lparr>File_name = fileName \<lparr>ContextID = 2, Port = 1024\<rparr>,
                                     File_closed = False\<rparr>\<rparr>,
               Conn_local = \<lparr>ContextID = 2, Port = 1024\<rparr>,
               Conn_remote = \<lparr>ContextID = 3, Port = 5000\<rparr>\<rparr>, None),
             [SysSetNonblock 4])"
proof -
  have h: "\<forall>e\<in>set [EAGAIN, ECONNABORTED, EAGAIN]. e = EAGAIN \<or> e = ECONNABORTED" by simp
  have "VsockListener_Accept
       \<lparr>VsockListener_listener =
        \<lparr>listener_fd = \<lparr>sysListenFD_fd = 3, sysListenFD_f = os_NewFile 3 ''vsock-listen''\<rparr>,
         listener_addr = \<lparr>ContextID = 2, Port = 1024\<rparr>\<rparr>\<rparr>
       [Call (Accepted 4 (SockaddrVM 3 5000))]
       \<lparr>socket_r = Inr 3, socket_fallback_r = Inr 3, connect_r = None, bind_r = None,
        listen_r = None, getsockname_r = Inr (SockaddrVM 2 1024), setnonblock_r = None,
        close_r = None\<rparr>
     = Some (Return (Some \<lparr>Conn_fd = \<lparr>sysConnFD_fd = 4,
                 sysConnFD_f = Some \<lparr>File_name = fileName \<lparr>ContextID = 2, Port = 1024\<rparr>,
                                     File_closed = False\<rparr>\<rparr>,
               Conn_local = \<lparr>ContextID = 2, Port = 1024\<rparr>,
               Conn_remote = \<lparr>ContextID = 3, Port = 5000\<rparr>\<rparr>, None),
             [SysSetNonblock 4])"
    by (simp add: VsockListener_Accept_def listener_Accept_def sysListenFD_Accept4_def
        sysListenFD_accept4_def File_SyscallConn_def os_rawConn_Read_def os_NewFile_def
        accept4_fn_def newConn_def sysConnFD_SetNonblocking_def sysConnFD_setNonblocking_def)
  with accept_retries_transient [OF h, where evs = "[Call (Accepted 4 (SockaddrVM 3 5000))]"]
  show ?thesis by auto
qed

text \<open>
  On an open listener, \<^verbatim>\<open>Accept\<close> panics on every failure of the accept system call
  that is not transient, and whenever the wait for readiness fails.
\<close>

lemma Accept_panics_on_failure:
  assumes "sysListenFD_f (listener_fd (VsockListener_listener vl)) = Some fl"
    and "\<not> File_closed fl"
    and "e \<noteq> EAGAIN" and "e \<noteq> ECONNABORTED"
  shows "VsockListener_Accept vl (Call (AcceptFailed e) # evs) env = Some (Panic, [])"
  using assms
  by (simp add: VsockListener_Accept_def listener_Accept_def sysListenFD_Accept4_def
        sysListenFD_accept4_def File_SyscallConn_def os_rawConn_Read_def accept4_fn_def)

lemma Accept_panics_on_wait_failure:
  assumes "sysListenFD_f (listener_fd (VsockListener_listener vl)) = Some fl"
    and "\<not> File_closed fl"
  shows "VsockListener_Accept vl (WaitFail e # evs) env = Some (Panic, [])"
  using assms
  by (simp add: VsockListener_Accept_def listener_Accept_def sysListenFD_Accept4_def
        sysListenFD_accept4_def File_SyscallConn_def os_rawConn_Read_def accept4_fn_def)

text \<open>
  Claim C1. A failure of the accept system call that is not one of the two transient
  ones is to reach the caller as an error tagged \<^verbatim>\<open>accept\<close>. The code does not do
  so: \<^verbatim>\<open>accept4\<close> returns a nil error in place of \<open>err\<close>, and \<^verbatim>\<open>Accept\<close> then
  asserts the type of the nil peer address. With \<^verbatim>\<open>EMFILE\<close> from the system call,
  \<^verbatim>\<open>Accept\<close> on an open listener panics and returns no error.
\<close>

theorem accept_failure_not_surfaced:
  "VsockListener_Accept
     \<lparr>VsockListener_listener =
        \<lparr>listener_fd = \<lparr>sysListenFD_fd = 3, sysListenFD_f = os_NewFile 3 ''vsock-listen''\<rparr>,
         listener_addr = \<lparr>ContextID = 2, Port = 1024\<rparr>\<rparr>\<rparr>
     [Call (AcceptFailed EMFILE)] env
   = Some (Panic, [])"
  by (simp add: VsockListener_Accept_def listener_Accept_def sysListenFD_Accept4_def
        sysListenFD_accept4_def File_SyscallConn_def os_rawConn_Read_def os_NewFile_def
        accept4_fn_def EMFILE_def EAGAIN_def ECONNABORTED_def)

text \<open>
  Claim C3. No operation is to panic. \<^verbatim>\<open>Accept\<close> does: when the wait for readiness
  ends because another task closed the listener, \<^verbatim>\<open>accept4\<close> drops what
  \<^verbatim>\<open>RawConn.Read\<close> returns and reports success with a nil address, and the type
  assertion of \<^verbatim>\<open>Accept\<close> panics.
\<close>

theorem accept_panics_when_listener_closed:
  "VsockListener_Accept
     \<lparr>VsockListener_listener =
        \<lparr>listener_fd = \<lparr>sysListenFD_fd = 3, sysListenFD_f = os_NewFile 3 ''vsock-listen''\<rparr>,
         listener_addr = \<lparr>ContextID = 2, Port = 1024\<rparr>\<rparr>\<rparr>
     [Call (AcceptFailed EAGAIN), WaitFail ErrFileClosing] env
   = Some (Panic, [])"
  by (simp add: VsockListener_Accept_def listener_Accept_def sysListenFD_Accept4_def
        sysListenFD_accept4_def File_SyscallConn_def os_rawConn_Read_def os_NewFile_def
        accept4_fn_def EAGAIN_def ECONNABORTED_def)

section \<open>Properties: dial and listen\<close>

lemma map_sum_eq_Inl: "map_sum f g x = Inl e \<longleftrightarrow> (\<exists>a. x = Inl a \<and> e = f a)"
  by (cases x) auto

lemma map_sum_eq_Inr: "map_sum f g x = Inr v \<longleftrightarrow> (\<exists>b. x = Inr b \<and> v = g b)"
  by (cases x) auto

text \<open>
  \<^verbatim>\<open>dialLinux\<close> releases the descriptor on each of its failures, as its last call,
  and does not release it on success.
\<close>

lemma dialLinux_failure_releases:
  assumes "dialLinux cfd cid port env = (Return (Inl e), t)"
  shows "\<exists>t'. t = t' @ [SysClose (sysConnFD_fd cfd)]"
  using assms
  by (auto simp: dialLinux_def dialLinux_deferred_def sysConnFD_Connect_def
        sysConnFD_Getsockname_def sysConnFD_EarlyClose_def newConn_def
        sysConnFD_SetNonblocking_def sysConnFD_setNonblocking_def Let_def
        map_sum_eq_Inl map_sum_eq_Inr
      split: option.splits sum.splits sockaddr.splits prod.splits)

lemma dialLinux_success_keeps:
  assumes "dialLinux cfd cid port env = (Return (Inr c), t)"
  shows "SysClose (sysConnFD_fd cfd) \<notin> set t"
  using assms
  by (auto simp: dialLinux_def dialLinux_deferred_def sysConnFD_Connect_def
        sysConnFD_Getsockname_def sysConnFD_EarlyClose_def newConn_def
        sysConnFD_SetNonblocking_def sysConnFD_setNonblocking_def Let_def
        map_sum_eq_Inl map_sum_eq_Inr
      split: option.splits sum.splits sockaddr.splits prod.splits)

text \<open>
  \<^verbatim>\<open>listenLinux\<close> releases the descriptor on a failure only when the failure is that
  of reading the bound address back.
\<close>

lemma listenLinux_failure_releases_iff:
  assumes "listenLinux n lfd cid port env = (Return (Inl e), t)"
  shows "SysClose (sysListenFD_fd lfd) \<in> set t
         \<longleftrightarrow> bind_r env = None \<and> listen_r env = None \<and> (\<exists>e'. getsockname_r env = Inl e')"
  using assms
  by (auto simp: listenLinux_def listenLinux_deferred_def sysListenFD_Bind_def
        sysListenFD_Listen_def sysListenFD_Getsockname_def sysListenFD_EarlyClose_def
        sysListenFD_SetNonblocking_def sysListenFD_setNonblocking_def Let_def
        map_sum_eq_Inl map_sum_eq_Inr
      split: option.splits sum.splits sockaddr.splits prod.splits)

text \<open>
  Claim C2. A failure between the creation of the descriptor and its transition is to
  release the descriptor before the error is returned. \<^verbatim>\<open>listenLinux\<close> does not when
  \<^verbatim>\<open>Bind\<close> fails: with \<^verbatim>\<open>EADDRINUSE\<close> from \<^verbatim>\<open>Bind\<close> on descriptor 3 it returns the
  error, and the only system call it has made is the bind; descriptor 3 stays open.
\<close>

theorem listenLinux_bind_failure_leaks:
  "listenLinux n \<lparr>sysListenFD_fd = 3, sysListenFD_f = None\<rparr> 2 1024
     (env\<lparr>bind_r := Some EADDRINUSE\<rparr>)
   = (Return (Inl (Errno EADDRINUSE)), [SysBind 3 (SockaddrVM 2 1024)])"
  by (simp add: listenLinux_def sysListenFD_Bind_def listenLinux_deferred_def)

lemma listenLinux_success:
  assumes "listenLinux n lfd cid port env = (Return (Inr l), t)"
  shows "t = [SysBind (sysListenFD_fd lfd)
                (SockaddrVM cid (if port = 0 then VMADDR_PORT_ANY else port)),
              SysListen (sysListenFD_fd lfd) n,
              SysGetsockname (sysListenFD_fd lfd),
              SysSetNonblock (sysListenFD_fd lfd)]
         \<and> (\<exists>lcid lport. getsockname_r env = Inr (SockaddrVM lcid lport)
               \<and> listener_addr (VsockListener_listener l) = \<lparr>ContextID = lcid, Port = lport\<rparr>)"
  using assms
  by (auto simp: listenLinux_def listenLinux_deferred_def sysListenFD_Bind_def
        sysListenFD_Listen_def sysListenFD_Getsockname_def sysListenFD_EarlyClose_def
        sysListenFD_SetNonblocking_def sysListenFD_setNonblocking_def Let_def
        map_sum_eq_Inl map_sum_eq_Inr
      split: option.splits sum.splits sockaddr.splits prod.splits)

text \<open>
  Claim C8. A successful \<^verbatim>\<open>listen(cid, port)\<close> has, after creating the descriptor,
  bound it to \<open>cid\<close> and the port (the wildcard \<^verbatim>\<open>VMADDR_PORT_ANY\<close> in place of
  port 0), listened with the backlog \<^verbatim>\<open>SOMAXCONN\<close>, read the bound address back and
  made the descriptor non-blocking, in this order; the address of the listener it
  returns is the one read back, whatever port was asked for.
\<close>

theorem listen_binds_and_reads_back:
  assumes "listen n cid port env = (Return (Inr l), t)"
  shows "\<exists>fd ts lcid lport.
           socket env = (Inr fd, ts)
           \<and> t = ts @ [SysBind fd (SockaddrVM cid (if port = 0 then VMADDR_PORT_ANY else port)),
                      SysListen fd n, SysGetsockname fd, SysSetNonblock fd]
           \<and> getsockname_r env = Inr (SockaddrVM lcid lport)
           \<and> listener_addr (VsockListener_listener l) = \<lparr>ContextID = lcid, Port = lport\<rparr>
           \<and> VsockListener_Addr l = \<lparr>ContextID = lcid, Port = lport\<rparr>"
proof -
  from assms obtain lfd ts t' where
    nl: "newListenFD env = (Inr lfd, ts)" and
    ll: "listenLinux n lfd cid port env = (Return (Inr l), t')" and
    t: "t = ts @ t'"
    by (auto simp: listen_def split: prod.splits sum.splits)
  from nl have sk: "socket env = (Inr (sysListenFD_fd lfd), ts)"
    by (auto simp: newListenFD_def split: prod.splits sum.splits)
  from listenLinux_success [OF ll] sk t show ?thesis
    by (auto simp: VsockListener_Addr_def listener_Addr_def)
qed

theorem listen_binds_and_reads_back_witness:
  "listen 128 2 0
     \<lparr>socket_r = Inr 3, socket_fallback_r = Inr 3, connect_r = None, bind_r = None,
      listen_r = None, getsockname_r = Inr (SockaddrVM 2 49152), setnonblock_r = None,
      close_r = None\<rparr>
   = (Return (Inr \<lparr>VsockListener_listener =
        \<lparr>listener_fd = \<lparr>sysListenFD_fd = 3,
                        sysListenFD_f = Some \<lparr>File_name = ''vsock-listen'', File_closed = False\<rparr>\<rparr>,
         listener_addr = \<lparr>ContextID = 2, Port = 49152\<rparr>\<rparr>\<rparr>),
      [SysSocket True, SysBind 3 (SockaddrVM 2 VMADDR_PORT_ANY), SysListen 3 128,
       SysGetsockname 3, SysSetNonblock 3])
   \<and> VsockListener_Addr \<lparr>VsockListener_listener =
        \<lparr>listener_fd = \<lparr>sysListenFD_fd = 3,
                        sysListenFD_f = Some \<lparr>File_name = ''vsock-listen'', File_closed = False\<rparr>\<rparr>,
         listener_addr = \<lparr>ContextID = 2, Port = 49152\<rparr>\<rparr>\<rparr>
       = \<lparr>ContextID = 2, Port = 49152\<rparr>"
proof -
  let ?env = "\<lparr>socket_r = Inr 3, socket_fallback_r = Inr 3, connect_r = None, bind_r = None,
      listen_r = None, getsockname_r = Inr (SockaddrVM 2 49152), setnonblock_r = None,
      close_r = None\<rparr>"
  have h: "listen 128 2 0 ?env
   = (Return (Inr \<lparr>VsockListener_listener =
        \<lparr>listener_fd = \<lparr>sysListenFD_fd = 3,
                        sysListenFD_f = Some \<lparr>File_name = ''vsock-listen'', File_closed = False\<rparr>\<rparr>,
         listener_addr = \<lparr>ContextID = 2, Port = 49152\<rparr>\<rparr>\<rparr>),
      [SysSocket True, SysBind 3 (SockaddrVM 2 VMADDR_PORT_ANY), SysListen 3 128,
       SysGetsockname 3, SysSetNonblock 3])"
    by (simp add: listen_def newListenFD_def socket_def listenLinux_def
          listenLinux_deferred_def sysListenFD_Bind_def
          sysListenFD_Listen_def sysListenFD_Getsockname_def
          sysListenFD_SetNonblocking_def sysListenFD_setNonblocking_def os_NewFile_def)
  from listen_binds_and_reads_back [OF h] h show ?thesis by auto
qed

section \<open>Properties: the classifier, read and close\<close>

lemma fileName_not_devVsock: "fileName a \<noteq> devVsock"
  by (simp add: fileName_def Addr_Network_def network_def devVsock_def)

lemma not_closed_text_EOF: "\<not> strings_Contains (Error EOF) ''use of closed''"
  by (simp add: strings_Contains_def sublist_Cons_right)

lemma not_closed_text_ENOTCONN: "\<not> strings_Contains (Error (Errno ENOTCONN)) ''use of closed''"
  by (simp add: strings_Contains_def Errno_Error_def ENOTCONN_def EBADF_def EAGAIN_def
        EINVAL_def EMFILE_def EADDRINUSE_def ECONNABORTED_def sublist_Cons_right)

lemma opError_end_of_stream:
  "unwrapPathError e = EOF \<or> unwrapPathError e = Errno ENOTCONN \<Longrightarrow>
   opError op (Some e) l r = Some EOF"
  by (auto simp: opError_def isErrno_def Let_def enotconn_def ebadf_def)

lemma opError_closed:
  assumes "unwrapPathError e = ErrClosed \<or> unwrapPathError e = Errno EBADF
           \<or> strings_Contains (Error (unwrapPathError e)) ''use of closed''"
  shows "\<exists>s a. opError op (Some e) l r = Some (OpError (errOp_String op) network s a closedCause)"
proof -
  have 1: "unwrapPathError e \<noteq> EOF"
    using assms not_closed_text_EOF by (auto simp: EBADF_def)
  have 2: "\<not> isErrno (unwrapPathError e) enotconn"
    using assms not_closed_text_ENOTCONN
    by (auto simp: isErrno_def enotconn_def ebadf_def EBADF_def ENOTCONN_def)
  have 3: "unwrapPathError e = ErrClosed \<or> isErrno (unwrapPathError e) ebadf
           \<or> strings_Contains (Error (unwrapPathError e)) ''use of closed''"
    using assms by (auto simp: isErrno_def)
  show ?thesis
    using 1 2 3 by (cases op) (simp_all add: opError_def Let_def)
qed

lemma opError_envelope:
  "opError op (Some e) l r = Some EOF
   \<or> (\<exists>cause. opError op (Some e) l r =
         Some (OpError (errOp_String op) network
                 (if op \<in> {opClose, opDial, opRawRead, opRawWrite, opRead, opWrite} then l else None)
                 (if op \<in> {opClose, opDial, opRawRead, opRawWrite, opRead, opWrite} then r else l)
                 cause))"
  by (cases op) (simp_all add: opError_def Let_def)

lemma opError_EOF_iff:
  "opError op (Some e) l r = Some EOF
   \<longleftrightarrow> unwrapPathError e = EOF \<or> unwrapPathError e = Errno ENOTCONN"
  by (cases op) (auto simp: opError_def Let_def isErrno_def enotconn_def ebadf_def)

lemma newConn_file:
  assumes "newConn cfd local remote env = (Inr c, t)" "0 \<le> sysConnFD_fd cfd"
  shows "sysConnFD_f (Conn_fd c) = Some \<lparr>File_name = fileName local, File_closed = False\<rparr>
         \<and> Conn_local c = local \<and> Conn_remote c = remote"
  using assms
  by (auto simp: newConn_def sysConnFD_SetNonblocking_def sysConnFD_setNonblocking_def
        os_NewFile_def split: option.splits prod.splits)

lemma newConn_example:
  "newConn \<lparr>sysConnFD_fd = 4, sysConnFD_f = None\<rparr> \<lparr>ContextID = 2, Port = 1024\<rparr>
       \<lparr>ContextID = 3, Port = 5000\<rparr>
       \<lparr>socket_r = Inr 4, socket_fallback_r = Inr 4, connect_r = None, bind_r = None,
        listen_r = None, getsockname_r = Inr (SockaddrVM 2 1024), setnonblock_r = None,
        close_r = None\<rparr>
     = (Inr \<lparr>Conn_fd = \<lparr>sysConnFD_fd = 4,
                 sysConnFD_f = os_NewFile 4 (fileName \<lparr>ContextID = 2, Port = 1024\<rparr>)\<rparr>,
      Conn_local = \<lparr>ContextID = 2, Port = 1024\<rparr>,
      Conn_remote = \<lparr>ContextID = 3, Port = 5000\<rparr>\<rparr>, [SysSetNonblock 4])"
  by (simp add: newConn_def sysConnFD_SetNonblocking_def sysConnFD_setNonblocking_def
        os_NewFile_def)

text \<open>
  Claim C5. On a connection as \<^verbatim>\<open>newConn\<close> makes it, a read into a non-empty buffer
  that meets the end of the stream, or that fails with \<^verbatim>\<open>ENOTCONN\<close>, returns 0 bytes
  and the bare \<^verbatim>\<open>io.EOF\<close>; any other failure of the read returns an envelope tagged
  \<^verbatim>\<open>read\<close> with the connection's two addresses. On any connection at all, the error
  of a read is \<^verbatim>\<open>io.EOF\<close> or such an envelope.
\<close>

theorem Conn_Read_end_of_stream:
  assumes "newConn cfd local remote env = (Inr c, t)" and "0 \<le> sysConnFD_fd cfd"
    and "0 < len_b"
  shows "Conn_Read c len_b (IoBytes 0) = (0, Some EOF)
         \<and> Conn_Read c len_b (IoErr (Errno ENOTCONN)) = (0, Some EOF)
         \<and> (e \<noteq> EOF \<and> e \<noteq> Errno ENOTCONN \<longrightarrow>
              (\<exists>cause. Conn_Read c len_b (IoErr e)
                 = (0, Some (OpError ''read'' ''vsock'' (Some local) (Some remote) cause))))
         \<and> (\<forall>c' len r n x. Conn_Read c' len r = (n, Some x) \<longrightarrow>
              x = EOF \<or> (\<exists>cause. x = OpError ''read'' ''vsock''
                                       (Some (Conn_local c')) (Some (Conn_remote c')) cause))"
proof -
  from newConn_file [OF assms(1,2)] have
    f: "sysConnFD_f (Conn_fd c) = Some \<lparr>File_name = fileName local, File_closed = False\<rparr>"
    and l: "Conn_local c = local" and r: "Conn_remote c = remote" by simp_all
  have a: "Conn_Read c len_b (IoBytes 0) = (0, Some EOF)"
    using f assms(3)
    by (simp add: Conn_Read_def sysConnFD_Read_def File_Read_def Conn_opError_def
          opError_end_of_stream unwrapPathError_def)
  have b: "Conn_Read c len_b (IoErr (Errno ENOTCONN)) = (0, Some EOF)"
    using f assms(3) fileName_not_devVsock [of local]
    by (simp add: Conn_Read_def sysConnFD_Read_def File_Read_def Conn_opError_def wrapErr_def
          opError_end_of_stream unwrapPathError_def ErrFileClosing_def)
  have c: "\<exists>cause. Conn_Read c len_b (IoErr e)
                 = (0, Some (OpError ''read'' ''vsock'' (Some local) (Some remote) cause))"
    if "e \<noteq> EOF" "e \<noteq> Errno ENOTCONN"
  proof -
    let ?w = "PathError ''read'' (fileName local) (if e = ErrFileClosing then ErrClosed else e)"
    have "unwrapPathError ?w \<noteq> EOF" "unwrapPathError ?w \<noteq> Errno ENOTCONN"
      using that fileName_not_devVsock [of local] by (auto simp: unwrapPathError_def)
    then have "opError opRead (Some ?w) (Some local) (Some remote) \<noteq> Some EOF"
      by (simp add: opError_EOF_iff)
    with opError_envelope [of opRead ?w "Some local" "Some remote"]
    obtain cause where "opError opRead (Some ?w) (Some local) (Some remote)
       = Some (OpError ''read'' ''vsock'' (Some local) (Some remote) cause)"
      by (auto simp: network_def)
    then show ?thesis
      using f l r assms(3) that
      by (simp add: Conn_Read_def sysConnFD_Read_def File_Read_def Conn_opError_def wrapErr_def)
  qed
  have d: "x = EOF \<or> (\<exists>cause. x = OpError ''read'' ''vsock''
                                       (Some (Conn_local c')) (Some (Conn_remote c')) cause)"
    if "Conn_Read c' len r' = (n, Some x)" for c' len r' n x
  proof -
    from that obtain e0 where "x \<in> set_option (opError opRead (Some e0) (Some (Conn_local c')) (Some (Conn_remote c')))"
      by (auto simp: Conn_Read_def Conn_opError_def split: prod.splits option.splits)
    with opError_envelope [of opRead e0 "Some (Conn_local c')" "Some (Conn_remote c')"]
    show ?thesis by (auto simp: network_def)
  qed
  from a b c d show ?thesis by blast
qed

theorem Conn_Read_end_of_stream_witness:
  "newConn \<lparr>sysConnFD_fd = 4, sysConnFD_f = None\<rparr> \<lparr>ContextID = 2, Port = 1024\<rparr>
       \<lparr>ContextID = 3, Port = 5000\<rparr>
       \<lparr>socket_r = Inr 4, socket_fallback_r = Inr 4, connect_r = None, bind_r = None,
        listen_r = None, getsockname_r = Inr (SockaddrVM 2 1024), setnonblock_r = None,
        close_r = None\<rparr>
     = (Inr \<lparr>Conn_fd = \<lparr>sysConnFD_fd = 4,
                 sysConnFD_f = os_NewFile 4 (fileName \<lparr>ContextID = 2, Port = 1024\<rparr>)\<rparr>,
      Conn_local = \<lparr>ContextID = 2, Port = 1024\<rparr>,
      Conn_remote = \<lparr>ContextID = 3, Port = 5000\<rparr>\<rparr>, [SysSetNonblock 4])
   \<and> (0::int) \<le> 4 \<and> (0::nat) < 16
   \<and> Conn_Read \<lparr>Conn_fd = \<lparr>sysConnFD_fd = 4,
                 sysConnFD_f = os_NewFile 4 (fileName \<lparr>ContextID = 2, Port = 1024\<rparr>)\<rparr>,
      Conn_local = \<lparr>ContextID = 2, Port = 1024\<rparr>,
      Conn_remote = \<lparr>ContextID = 3, Port = 5000\<rparr>\<rparr> 16 (IoBytes 0) = (0, Some EOF)
   \<and> Conn_Read \<lparr>Conn_fd = \<lparr>sysConnFD_fd = 4,
                 sysConnFD_f = os_NewFile 4 (fileName \<lparr>ContextID = 2, Port = 1024\<rparr>)\<rparr>,
      Conn_local = \<lparr>ContextID = 2, Port = 1024\<rparr>,
      Conn_remote = \<lparr>ContextID = 3, Port = 5000\<rparr>\<rparr> 16 (IoErr (Errno ENOTCONN)) = (0, Some EOF)
   \<and> (\<exists>cause. Conn_Read \<lparr>Conn_fd = \<lparr>sysConnFD_fd = 4,
                 sysConnFD_f = os_NewFile 4 (fileName \<lparr>ContextID = 2, Port = 1024\<rparr>)\<rparr>,
      Conn_local = \<lparr>ContextID = 2, Port = 1024\<rparr>,
      Conn_remote = \<lparr>ContextID = 3, Port = 5000\<rparr>\<rparr> 16 (IoErr (Errno EINVAL))
        = (0, Some (OpError ''read'' ''vsock'' (Some \<lparr>ContextID = 2, Port = 1024\<rparr>)
                      (Some \<lparr>ContextID = 3, Port = 5000\<rparr>) cause)))"
proof -
  have ne: "Errno EINVAL \<noteq> EOF \<and> Errno EINVAL \<noteq> Errno ENOTCONN"
    by (simp add: EINVAL_def ENOTCONN_def)
  from Conn_Read_end_of_stream [OF newConn_example, of 16 "Errno EINVAL"] ne newConn_example
  show ?thesis by simp
qed

text \<open>
  Claim C4. On a connection as \<^verbatim>\<open>newConn\<close> makes it, the \<^verbatim>\<open>Close\<close> that follows a
  \<^verbatim>\<open>Close\<close> returns (it does not panic) the envelope tagged \<^verbatim>\<open>close\<close> whose cause is
  the one error \<^verbatim>\<open>use of closed network connection\<close>, whatever the two \<^verbatim>\<open>close(2)\<close>
  calls answer. For every operation, an error that the classifier finds to be
  \<^verbatim>\<open>os.ErrClosed\<close> or \<^verbatim>\<open>EBADF\<close>, or whose text contains \<^verbatim>\<open>use of closed\<close>, gets that
  same cause; the classifier looks at the error after it has taken a path error on
  a path other than \<^verbatim>\<open>/dev/vsock\<close> off it.
\<close>

theorem double_close_is_canonical:
  assumes "newConn cfd local remote env = (Inr c, t)" and "0 \<le> sysConnFD_fd cfd"
  shows "snd (Conn_Close (fst (Conn_Close c r1)) r2)
           = Some (OpError ''close'' ''vsock'' (Some local) (Some remote)
                     (ErrorString ''use of closed network connection''))
         \<and> (unwrapPathError e = ErrClosed \<or> unwrapPathError e = Errno EBADF
              \<or> strings_Contains (Error (unwrapPathError e)) ''use of closed''
            \<longrightarrow> (\<exists>s a. opError op (Some e) l r
                    = Some (OpError (errOp_String op) ''vsock'' s a
                              (ErrorString ''use of closed network connection''))))"
proof -
  from newConn_file [OF assms] have
    f: "sysConnFD_f (Conn_fd c) = Some \<lparr>File_name = fileName local, File_closed = False\<rparr>"
    and l: "Conn_local c = local" and r: "Conn_remote c = remote" by simp_all
  have "opError opClose (Some (PathError ''close'' (fileName local) ErrClosed))
          (Some local) (Some remote)
        = Some (OpError ''close'' ''vsock'' (Some local) (Some remote) closedCause)"
    using fileName_not_devVsock [of local]
    by (simp add: opError_def unwrapPathError_def isErrno_def Let_def network_def
          enotconn_def ebadf_def)
  then have 1: "snd (Conn_Close (fst (Conn_Close c r1)) r2)
           = Some (OpError ''close'' ''vsock'' (Some local) (Some remote) closedCause)"
    using f l r
    by (simp add: Conn_Close_def sysConnFD_Close_def File_Close_def wrapErr_def
          Conn_opError_def ErrFileClosing_def split: prod.splits)
  from 1 opError_closed [of e op l r] show ?thesis
    by (auto simp: closedCause_def network_def)
qed

theorem double_close_is_canonical_witness:
  "newConn \<lparr>sysConnFD_fd = 4, sysConnFD_f = None\<rparr> \<lparr>ContextID = 2, Port = 1024\<rparr>
       \<lparr>ContextID = 3, Port = 5000\<rparr>
       \<lparr>socket_r = Inr 4, socket_fallback_r = Inr 4, connect_r = None, bind_r = None,
        listen_r = None, getsockname_r = Inr (SockaddrVM 2 1024), setnonblock_r = None,
        close_r = None\<rparr>
     = (Inr \<lparr>Conn_fd = \<lparr>sysConnFD_fd = 4,
                 sysConnFD_f = os_NewFile 4 (fileName \<lparr>ContextID = 2, Port = 1024\<rparr>)\<rparr>,
      Conn_local = \<lparr>ContextID = 2, Port = 1024\<rparr>,
      Conn_remote = \<lparr>ContextID = 3, Port = 5000\<rparr>\<rparr>, [SysSetNonblock 4])
   \<and> (0::int) \<le> 4
   \<and> snd (Conn_Close (fst (Conn_Close \<lparr>Conn_fd = \<lparr>sysConnFD_fd = 4,
                 sysConnFD_f = os_NewFile 4 (fileName \<lparr>ContextID = 2, Port = 1024\<rparr>)\<rparr>,
      Conn_local = \<lparr>ContextID = 2, Port = 1024\<rparr>,
      Conn_remote = \<lparr>ContextID = 3, Port = 5000\<rparr>\<rparr> None)) None)
       = Some (OpError ''close'' ''vsock'' (Some \<lparr>ContextID = 2, Port = 1024\<rparr>)
                 (Some \<lparr>ContextID = 3, Port = 5000\<rparr>)
                 (ErrorString ''use of closed network connection''))
   \<and> unwrapPathError (PathError ''write'' ''vsock:host(2):1024'' (Errno EBADF)) = Errno EBADF
   \<and> (\<exists>s a. opError opWrite (Some (PathError ''write'' ''vsock:host(2):1024'' (Errno EBADF)))
               (Some \<lparr>ContextID = 2, Port = 1024\<rparr>) (Some \<lparr>ContextID = 3, Port = 5000\<rparr>)
        = Some (OpError ''write'' ''vsock'' s a
                  (ErrorString ''use of closed network connection'')))"
proof -
  have u: "unwrapPathError (PathError ''write'' ''vsock:host(2):1024'' (Errno EBADF))
           = Errno EBADF"
    by (simp add: unwrapPathError_def devVsock_def)
  from double_close_is_canonical [OF newConn_example, of None None
         "PathError ''write'' ''vsock:host(2):1024'' (Errno EBADF)" opWrite
         "Some \<lparr>ContextID = 2, Port = 1024\<rparr>" "Some \<lparr>ContextID = 3, Port = 5000\<rparr>"]
       u newConn_example
  show ?thesis by simp
qed

section \<open>Properties: the envelope of every public operation\<close>

lemma envelope_None: "envelope op l r None"
  by (simp add: envelope_def)

lemma opError_canonical:
  "opError op e l r = Some EOF \<or> envelope op l r (opError op e l r)"
  by (cases e; cases op)
     (simp_all add: opError_def envelope_def Let_def operationTags_def network_def)

lemma Listen_canonical:
  "(case Listen n port cenv env of
      (Return (l, e), t) \<Rightarrow>
        e = Some EOF
        \<or> envelope opListen
            (if snd (ContextID_fn cenv) = None
             then Some \<lparr>ContextID = fst (ContextID_fn cenv), Port = port\<rparr> else None)
            None e
    | (Panic, t) \<Rightarrow> True)"
  by (auto simp: Listen_def opError_canonical envelope_None
      split: prod.splits option.splits exec.splits sum.splits)

lemma Dial_canonical:
  "(case Dial cid port env of
      (Return (c, e), t) \<Rightarrow>
        e = Some EOF \<or> envelope opDial None (Some \<lparr>ContextID = cid, Port = port\<rparr>) e
    | (Panic, t) \<Rightarrow> True)"
  by (auto simp: Dial_def opError_canonical envelope_None
      split: prod.splits option.splits exec.splits sum.splits)

lemma Accept_canonical:
  "(case VsockListener_Accept vl evs env of
      Some (Return (c, e), t) \<Rightarrow>
        e = Some EOF \<or> envelope opAccept (Some (VsockListener_Addr vl)) None e
    | Some (Panic, t) \<Rightarrow> True
    | None \<Rightarrow> True)"
  by (auto simp: VsockListener_Accept_def VsockListener_opError_def opError_canonical
        envelope_None
      split: prod.splits option.splits exec.splits sum.splits)

lemma Listener_ops_canonical:
  "(snd (VsockListener_Close vl r) = Some EOF
      \<or> envelope opClose (Some (VsockListener_Addr vl)) None (snd (VsockListener_Close vl r)))
   \<and> (VsockListener_SetDeadline vl d = Some EOF
      \<or> envelope opSet (Some (VsockListener_Addr vl)) None (VsockListener_SetDeadline vl d))"
  by (simp add: VsockListener_Close_def VsockListener_SetDeadline_def VsockListener_opError_def
        opError_canonical split: prod.splits)

lemma Conn_close_canonical:
  "(snd (Conn_Close c r) = Some EOF
      \<or> envelope opClose (Some (Conn_local c)) (Some (Conn_remote c)) (snd (Conn_Close c r)))
   \<and> (Conn_CloseRead c r = Some EOF
      \<or> envelope opClose (Some (Conn_local c)) (Some (Conn_remote c)) (Conn_CloseRead c r))
   \<and> (Conn_CloseWrite c r = Some EOF
      \<or> envelope opClose (Some (Conn_local c)) (Some (Conn_remote c)) (Conn_CloseWrite c r))"
  by (simp add: Conn_Close_def Conn_CloseRead_def Conn_CloseWrite_def Conn_opError_def
        opError_canonical split: prod.splits)

lemma Conn_io_canonical:
  "(snd (Conn_Read c len_b ir) = Some EOF
      \<or> envelope opRead (Some (Conn_local c)) (Some (Conn_remote c)) (snd (Conn_Read c len_b ir)))
   \<and> (snd (Conn_Write c len_b wr) = Some EOF
      \<or> envelope opWrite (Some (Conn_local c)) (Some (Conn_remote c)) (snd (Conn_Write c len_b wr)))"
  by (auto simp: Conn_Read_def Conn_Write_def Conn_opError_def opError_canonical envelope_None
        split: prod.splits option.splits)

lemma Conn_set_canonical:
  "(Conn_SetDeadline c d = Some EOF
      \<or> envelope opSet (Some (Conn_local c)) (Some (Conn_remote c)) (Conn_SetDeadline c d))
   \<and> (Conn_SetReadDeadline c d = Some EOF
      \<or> envelope opSet (Some (Conn_local c)) (Some (Conn_remote c)) (Conn_SetReadDeadline c d))
   \<and> (Conn_SetWriteDeadline c d = Some EOF
      \<or> envelope opSet (Some (Conn_local c)) (Some (Conn_remote c)) (Conn_SetWriteDeadline c d))
   \<and> (snd (Conn_SyscallConn c) = Some EOF
      \<or> envelope opSyscallConn (Some (Conn_local c)) (Some (Conn_remote c))
           (snd (Conn_SyscallConn c)))"
  by (auto simp: Conn_SetDeadline_def Conn_SetReadDeadline_def Conn_SetWriteDeadline_def
        Conn_SyscallConn_def Conn_opError_def opError_canonical envelope_None
      split: sum.splits)

lemma rawConn_canonical:
  "(rawConn_Control rc = Some EOF
      \<or> envelope opRawControl (Some (rawConn_local rc)) (Some (rawConn_remote rc))
           (rawConn_Control rc))
   \<and> (case rawConn_Read rc bs of
        Some e \<Rightarrow> e = Some EOF
          \<or> envelope opRawRead (Some (rawConn_local rc)) (Some (rawConn_remote rc)) e
      | None \<Rightarrow> True)
   \<and> (case rawConn_Write rc bs of
        Some e \<Rightarrow> e = Some EOF
          \<or> envelope opRawWrite (Some (rawConn_local rc)) (Some (rawConn_remote rc)) e
      | None \<Rightarrow> True)"
  by (auto simp: rawConn_Control_def rawConn_Read_def rawConn_Write_def rawConn_opError_def
        opError_canonical split: option.splits prod.splits)

text \<open>
  Claim C7, as stated: every error that a public operation returns is an envelope.
  It fails where the classifier returns the bare \<^verbatim>\<open>io.EOF\<close>: \<^verbatim>\<open>CloseWrite\<close> on an
  open connection whose \<^verbatim>\<open>shutdown(2)\<close> answers \<^verbatim>\<open>ENOTCONN\<close> returns \<^verbatim>\<open>io.EOF\<close>, which
  is an error and not an envelope.
\<close>

theorem CloseWrite_bare_EOF:
  "Conn_CloseWrite \<lparr>Conn_fd = \<lparr>sysConnFD_fd = 4,
                 sysConnFD_f = os_NewFile 4 (fileName \<lparr>ContextID = 2, Port = 1024\<rparr>)\<rparr>,
      Conn_local = \<lparr>ContextID = 2, Port = 1024\<rparr>,
      Conn_remote = \<lparr>ContextID = 3, Port = 5000\<rparr>\<rparr> (Some ENOTCONN) = Some EOF
   \<and> \<not> envelope opClose (Some \<lparr>ContextID = 2, Port = 1024\<rparr>)
         (Some \<lparr>ContextID = 3, Port = 5000\<rparr>)
         (Conn_CloseWrite \<lparr>Conn_fd = \<lparr>sysConnFD_fd = 4,
                 sysConnFD_f = os_NewFile 4 (fileName \<lparr>ContextID = 2, Port = 1024\<rparr>)\<rparr>,
      Conn_local = \<lparr>ContextID = 2, Port = 1024\<rparr>,
      Conn_remote = \<lparr>ContextID = 3, Port = 5000\<rparr>\<rparr> (Some ENOTCONN))"
proof -
  have "Conn_CloseWrite \<lparr>Conn_fd = \<lparr>sysConnFD_fd = 4,
                 sysConnFD_f = os_NewFile 4 (fileName \<lparr>ContextID = 2, Port = 1024\<rparr>)\<rparr>,
      Conn_local = \<lparr>ContextID = 2, Port = 1024\<rparr>,
      Conn_remote = \<lparr>ContextID = 3, Port = 5000\<rparr>\<rparr> (Some ENOTCONN) = Some EOF"
    by (simp add: Conn_CloseWrite_def sysConnFD_Shutdown_def shutWr_def SHUT_WR_def SHUT_RD_def
          sysConnFD_shutdown_def os_NewFile_def File_SyscallConn_def os_rawConn_Control_def
          Conn_opError_def opError_def unwrapPathError_def isErrno_def enotconn_def ebadf_def)
  then show ?thesis by (simp add: envelope_def)
qed

text \<open>
  Claim C7, amended. Every error that a public operation returns is the bare
  \<^verbatim>\<open>io.EOF\<close> or an envelope: its tag is the operation's, one of the eleven strings,
  its network is \<^verbatim>\<open>vsock\<close>; for dial, close, read, write, raw-read and raw-write its
  source is the local address and its destination the remote one, each when known;
  for accept, listen, raw-control, set and syscall-conn it has no source and its
  address is the local one. The operations are \<^verbatim>\<open>Listen\<close>, \<^verbatim>\<open>Dial\<close>, the listener's
  \<^verbatim>\<open>Accept\<close>, \<^verbatim>\<open>Close\<close> and \<^verbatim>\<open>SetDeadline\<close>, the connection's \<^verbatim>\<open>Close\<close>,
  \<^verbatim>\<open>CloseRead\<close>, \<^verbatim>\<open>CloseWrite\<close>, \<^verbatim>\<open>Read\<close>, \<^verbatim>\<open>Write\<close>, three deadline setters and
  \<^verbatim>\<open>SyscallConn\<close>, and the raw connection's \<^verbatim>\<open>Control\<close>, \<^verbatim>\<open>Read\<close> and \<^verbatim>\<open>Write\<close>.
\<close>

theorem public_errors_EOF_or_envelope:
  "(case Listen n port cenv env of
      (Return (l, e), t) \<Rightarrow>
        e = Some EOF
        \<or> envelope opListen
            (if snd (ContextID_fn cenv) = None
             then Some \<lparr>ContextID = fst (ContextID_fn cenv), Port = port\<rparr> else None)
            None e
    | (Panic, t) \<Rightarrow> True)
   \<and> (case Dial cid port env of
      (Return (c', e), t) \<Rightarrow>
        e = Some EOF \<or> envelope opDial None (Some \<lparr>ContextID = cid, Port = port\<rparr>) e
    | (Panic, t) \<Rightarrow> True)
   \<and> (case VsockListener_Accept vl evs env of
      Some (Return (c', e), t) \<Rightarrow>
        e = Some EOF \<or> envelope opAccept (Some (VsockListener_Addr vl)) None e
    | Some (Panic, t) \<Rightarrow> True
    | None \<Rightarrow> True)
   \<and> (snd (VsockListener_Close vl r) = Some EOF
      \<or> envelope opClose (Some (VsockListener_Addr vl)) None (snd (VsockListener_Close vl r)))
   \<and> (VsockListener_SetDeadline vl d = Some EOF
      \<or> envelope opSet (Some (VsockListener_Addr vl)) None (VsockListener_SetDeadline vl d))
   \<and> (snd (Conn_Close c r) = Some EOF
      \<or> envelope opClose (Some (Conn_local c)) (Some (Conn_remote c)) (snd (Conn_Close c r)))
   \<and> (Conn_CloseRead c r = Some EOF
      \<or> envelope opClose (Some (Conn_local c)) (Some (Conn_remote c)) (Conn_CloseRead c r))
   \<and> (Conn_CloseWrite c r = Some EOF
      \<or> envelope opClose (Some (Conn_local c)) (Some (Conn_remote c)) (Conn_CloseWrite c r))
   \<and> (snd (Conn_Read c len_b ir) = Some EOF
      \<or> envelope opRead (Some (Conn_local c)) (Some (Conn_remote c)) (snd (Conn_Read c len_b ir)))
   \<and> (snd (Conn_Write c len_b wr) = Some EOF
      \<or> envelope opWrite (Some (Conn_local c)) (Some (Conn_remote c))
           (snd (Conn_Write c len_b wr)))
   \<and> (Conn_SetDeadline c d = Some EOF
      \<or> envelope opSet (Some (Conn_local c)) (Some (Conn_remote c)) (Conn_SetDeadline c d))
   \<and> (Conn_SetReadDeadline c d = Some EOF
      \<or> envelope opSet (Some (Conn_local c)) (Some (Conn_remote c)) (Conn_SetReadDeadline c d))
   \<and> (Conn_SetWriteDeadline c d = Some EOF
      \<or> envelope opSet (Some (Conn_local c)) (Some (Conn_remote c)) (Conn_SetWriteDeadline c d))
   \<and> (snd (Conn_SyscallConn c) = Some EOF
      \<or> envelope opSyscallConn (Some (Conn_local c)) (Some (Conn_remote c))
           (snd (Conn_SyscallConn c)))
   \<and> (rawConn_Control rc = Some EOF
      \<or> envelope opRawControl (Some (rawConn_local rc)) (Some (rawConn_remote rc))
           (rawConn_Control rc))
   \<and> (case rawConn_Read rc bs of
        Some e \<Rightarrow> e = Some EOF
          \<or> envelope opRawRead (Some (rawConn_local rc)) (Some (rawConn_remote rc)) e
      | None \<Rightarrow> True)
   \<and> (case rawConn_Write rc bs of
        Some e \<Rightarrow> e = Some EOF
          \<or> envelope opRawWrite (Some (rawConn_local rc)) (Some (rawConn_remote rc)) e
      | None \<Rightarrow> True)"
  by (intro conjI Listen_canonical Dial_canonical Accept_canonical
        Listener_ops_canonical [THEN conjunct1] Listener_ops_canonical [THEN conjunct2]
        Conn_close_canonical [THEN conjunct1]
        Conn_close_canonical [THEN conjunct2, THEN conjunct1]
        Conn_close_canonical [THEN conjunct2, THEN conjunct2]
        Conn_io_canonical [THEN conjunct1] Conn_io_canonical [THEN conjunct2]
        Conn_set_canonical [THEN conjunct1]
        Conn_set_canonical [THEN conjunct2, THEN conjunct1]
        Conn_set_canonical [THEN conjunct2, THEN conjunct2, THEN conjunct1]
        Conn_set_canonical [THEN conjunct2, THEN conjunct2, THEN conjunct2]
        rawConn_canonical [THEN conjunct1]
        rawConn_canonical [THEN conjunct2, THEN conjunct1]
        rawConn_canonical [THEN conjunct2, THEN conjunct2])

end
